theory Spec2Isabelle
  imports Complex_Main "HOL-Library.Char_ord" "HOL-Library.List_Lexorder"
begin

section \<open>Python values\<close>

text \<open>
  The three clients (\<^verbatim>\<open>coingecko_utils.py\<close>, \<^verbatim>\<open>onchain_utils.py\<close>,
  \<^verbatim>\<open>cryptonews_utils.py\<close>) work on decoded JSON payloads and on Python dictionaries
  built from them. A payload is a value of type \<open>json\<close>; a Python \<^verbatim>\<open>dict\<close> is the
  \<open>JObj\<close> of its bindings (looked up with \<open>map_of\<close>). A Python \<^verbatim>\<open>float\<close> is
  idealised as the rational number it denotes. Every exception the source can raise is
  a value of \<open>py_error\<close>, and a computation that may raise has a result of type
  \<open>py_error + 'a\<close>.

  A Python \<^verbatim>\<open>str\<close> is the HOL string of the bytes of its UTF-8 encoding: an ASCII
  character is one byte, every other code point a sequence of two to four bytes.
\<close>

datatype py_error = KeyError | IndexError | TypeError | ValueError | AttributeError | Unmodelled

datatype json =
    JNull
  | JBool bool
  | JInt int
  | JFloat rat
  | JStr string
  | JArr "json list"
  | JObj "(string \<times> json) list"

type_synonym params = "(string \<times> json) list"

definition bnd :: "py_error + 'a \<Rightarrow> ('a \<Rightarrow> py_error + 'b) \<Rightarrow> py_error + 'b" where
  "bnd m f = (case m of Inl e \<Rightarrow> Inl e | Inr x \<Rightarrow> f x)"

text \<open>
  What the source takes from Python's text machinery and does not define itself: the
  text \<^verbatim>\<open>format(x, spec)\<close> renders for a number; the text \<^verbatim>\<open>str(x)\<close> gives for an
  object that is neither a string, an integer, a truth value nor \<^verbatim>\<open>None\<close>; the float a
  string denotes for \<^verbatim>\<open>float(s)\<close>; the timestamps \<^verbatim>\<open>datetime.fromtimestamp\<close>
  accepts; the upper case of a code point outside ASCII; its lower case, which may
  depend on the text before and after it; the integer \<^verbatim>\<open>int(s)\<close> reads from a
  string with characters outside ASCII; and the number of digits beyond which
  \<^verbatim>\<open>int(s)\<close> refuses a string (\<open>None\<close> when the interpreter has no such limit). On
  ASCII text everything else is computed.
\<close>

record pylib =
  fmt :: "string \<Rightarrow> json \<Rightarrow> string"
  repr :: "json \<Rightarrow> string"
  float_of_str :: "string \<Rightarrow> rat option"
  timestamp_ok :: "rat \<Rightarrow> bool"
  unicode_upper :: "string \<Rightarrow> string"
  unicode_lower :: "string \<Rightarrow> string \<Rightarrow> string \<Rightarrow> string"
  unicode_int :: "string \<Rightarrow> int option"
  max_str_digits :: "nat option"

subsection \<open>Code points and letter case\<close>

definition is_ascii :: "string \<Rightarrow> bool" where
  "is_ascii s = list_all (\<lambda>c. c < CHR 0x80) s"

text \<open>The code points of a string: a lead byte with the continuation bytes that follow
  it, as many as the lead byte announces.\<close>

definition is_cont :: "char \<Rightarrow> bool" where
  "is_cont c = (CHR 0x80 \<le> c \<and> c < CHR 0xC0)"

definition seq_len :: "char \<Rightarrow> nat" where
  "seq_len c =
     (if c < CHR 0xC0 then 1 else if c < CHR 0xE0 then 2 else if c < CHR 0xF0 then 3 else 4)"

fun code_points :: "string \<Rightarrow> string list" where
  "code_points [] = []"
| "code_points (c # cs) =
     (c # take (seq_len c - 1) (takeWhile is_cont cs))
     # code_points (drop (length (take (seq_len c - 1) (takeWhile is_cont cs))) cs)"

text \<open>On ASCII a letter differs from its other case in bit 5 only.\<close>

definition upper_char :: "char \<Rightarrow> char" where
  "upper_char c =
     (if CHR ''a'' \<le> c \<and> c \<le> CHR ''z''
      then (case c of Char b0 b1 b2 b3 b4 b5 b6 b7 \<Rightarrow> Char b0 b1 b2 b3 b4 False b6 b7)
      else c)"

definition lower_char :: "char \<Rightarrow> char" where
  "lower_char c =
     (if CHR ''A'' \<le> c \<and> c \<le> CHR ''Z''
      then (case c of Char b0 b1 b2 b3 b4 b5 b6 b7 \<Rightarrow> Char b0 b1 b2 b3 b4 True b6 b7)
      else c)"

definition ascii_upper :: "string \<Rightarrow> string" where
  "ascii_upper s = map upper_char s"

definition ascii_lower :: "string \<Rightarrow> string" where
  "ascii_lower s = map lower_char s"

text \<open>
  Three code points outside ASCII whose case Python maps as follows: U+00DF (sharp s)
  has the upper case \<open>SS\<close> and is its own lower case; U+1E9E (capital sharp s) is its
  own upper case and has the lower case U+00DF; U+017F (long s) has the upper case
  \<open>S\<close> and is its own lower case.
\<close>

definition sharp_s :: string where
  "sharp_s = [CHR 0xC3, CHR 0x9F]"

definition capital_sharp_s :: string where
  "capital_sharp_s = [CHR 0xE1, CHR 0xBA, CHR 0x9E]"

definition long_s :: string where
  "long_s = [CHR 0xC5, CHR 0xBF]"

text \<open>\<^verbatim>\<open>str.upper\<close>: code point by code point.\<close>

definition upper_cp :: "pylib \<Rightarrow> string \<Rightarrow> string" where
  "upper_cp lib q =
     (if length q = 1 then map upper_char q
      else if q = sharp_s then ''SS''
      else if q = long_s then ''S''
      else if q = capital_sharp_s then capital_sharp_s
      else unicode_upper lib q)"

definition py_upper :: "pylib \<Rightarrow> string \<Rightarrow> string" where
  "py_upper lib s = concat (map (upper_cp lib) (code_points s))"

text \<open>\<^verbatim>\<open>str.lower\<close>: code point by code point, each with the text before and after it.\<close>

definition lower_cp :: "pylib \<Rightarrow> string \<Rightarrow> string \<Rightarrow> string \<Rightarrow> string" where
  "lower_cp lib before q after =
     (if length q = 1 then map lower_char q
      else if q = capital_sharp_s then sharp_s
      else if q = sharp_s then sharp_s
      else if q = long_s then long_s
      else unicode_lower lib before q after)"

fun lower_from :: "pylib \<Rightarrow> string \<Rightarrow> string list \<Rightarrow> string" where
  "lower_from lib before [] = []"
| "lower_from lib before (q # qs) =
     lower_cp lib before q (concat qs) @ lower_from lib (before @ q) qs"

definition py_lower :: "pylib \<Rightarrow> string \<Rightarrow> string" where
  "py_lower lib s = lower_from lib [] (code_points s)"

subsection \<open>Objects\<close>

text \<open>Truth value of a Python object (\<^verbatim>\<open>if data\<close>, \<^verbatim>\<open>not data\<close>).\<close>

fun truthy :: "json \<Rightarrow> bool" where
  "truthy JNull = False"
| "truthy (JBool b) = b"
| "truthy (JInt i) = (i \<noteq> 0)"
| "truthy (JFloat r) = (r \<noteq> 0)"
| "truthy (JStr s) = (s \<noteq> [])"
| "truthy (JArr xs) = (xs \<noteq> [])"
| "truthy (JObj kvs) = (kvs \<noteq> [])"

text \<open>\<^verbatim>\<open>sub in s\<close> on strings: \<open>sub\<close> occurs as a contiguous substring of \<open>s\<close>.\<close>

fun is_prefix :: "string \<Rightarrow> string \<Rightarrow> bool" where
  "is_prefix [] s = True"
| "is_prefix (c # cs) [] = False"
| "is_prefix (c # cs) (d # ds) = (c = d \<and> is_prefix cs ds)"

fun substring :: "string \<Rightarrow> string \<Rightarrow> bool" where
  "substring sub [] = (sub = [])"
| "substring sub (c # cs) = (is_prefix sub (c # cs) \<or> substring sub cs)"

text \<open>\<^verbatim>\<open>k in x\<close> for a string \<open>k\<close>: key test on a dict, element test on a list,
  substring test on a string, \<^verbatim>\<open>TypeError\<close> on anything else.\<close>

fun py_contains :: "string \<Rightarrow> json \<Rightarrow> py_error + bool" where
  "py_contains k (JObj kvs) = Inr (k \<in> set (map fst kvs))"
| "py_contains k (JArr xs) = Inr (JStr k \<in> set xs)"
| "py_contains k (JStr s) = Inr (substring k s)"
| "py_contains k v = Inl TypeError"

text \<open>\<^verbatim>\<open>x[k]\<close> for a string key \<open>k\<close>.\<close>

fun py_getitem :: "json \<Rightarrow> string \<Rightarrow> py_error + json" where
  "py_getitem (JObj kvs) k = (case map_of kvs k of None \<Rightarrow> Inl KeyError | Some v \<Rightarrow> Inr v)"
| "py_getitem v k = Inl TypeError"

text \<open>\<^verbatim>\<open>x[0]\<close>. The keys of a decoded JSON object are strings, so \<^verbatim>\<open>0\<close> is never
  a key of one.\<close>

fun py_index0 :: "json \<Rightarrow> py_error + json" where
  "py_index0 (JArr []) = Inl IndexError"
| "py_index0 (JArr (x # xs)) = Inr x"
| "py_index0 (JStr t) = (case code_points t of [] \<Rightarrow> Inl IndexError | q # qs \<Rightarrow> Inr (JStr q))"
| "py_index0 (JObj kvs) = Inl KeyError"
| "py_index0 v = Inl TypeError"

fun py_len :: "json \<Rightarrow> py_error + nat" where
  "py_len (JArr xs) = Inr (length xs)"
| "py_len (JStr s) = Inr (length (code_points s))"
| "py_len (JObj kvs) = Inr (length kvs)"
| "py_len v = Inl TypeError"

text \<open>\<^verbatim>\<open>x.get(k, d)\<close>: only a dict has the method.\<close>

fun py_get :: "json \<Rightarrow> string \<Rightarrow> json \<Rightarrow> py_error + json" where
  "py_get (JObj kvs) k d = Inr (case map_of kvs k of None \<Rightarrow> d | Some v \<Rightarrow> v)"
| "py_get v k d = Inl AttributeError"

text \<open>\<^verbatim>\<open>min(xs, key=f)\<close>: the first element whose key is minimal; \<^verbatim>\<open>ValueError\<close> on
  an empty sequence.\<close>

fun py_min_key :: "('a \<Rightarrow> int) \<Rightarrow> 'a list \<Rightarrow> py_error + 'a" where
  "py_min_key f [] = Inl ValueError"
| "py_min_key f (x # xs) = Inr (fold (\<lambda>y best. if f y < f best then y else best) xs x)"


text \<open>A loop that builds a list and stops at the first exception.\<close>

fun mapM_res :: "('a \<Rightarrow> py_error + 'b) \<Rightarrow> 'a list \<Rightarrow> py_error + 'b list" where
  "mapM_res f [] = Inr []"
| "mapM_res f (x # xs) = bnd (f x) (\<lambda>y. bnd (mapM_res f xs) (\<lambda>ys. Inr (y # ys)))"

text \<open>\<^verbatim>\<open>xs[:n]\<close>: a negative \<open>n\<close> counts from the end.\<close>

definition py_slice_to :: "'a list \<Rightarrow> int \<Rightarrow> 'a list" where
  "py_slice_to xs n = (if 0 \<le> n then take (nat n) xs else take (length xs - nat (- n)) xs)"

fun py_slice_json :: "json \<Rightarrow> int \<Rightarrow> py_error + json list" where
  "py_slice_json (JArr xs) n = Inr (py_slice_to xs n)"
| "py_slice_json (JStr s) n = Inr (map JStr (py_slice_to (code_points s) n))"
| "py_slice_json v n = Inl TypeError"

text \<open>Iteration (\<^verbatim>\<open>for c in x\<close>): a dict yields its keys, a string its code points.\<close>

fun py_iter :: "json \<Rightarrow> py_error + json list" where
  "py_iter (JArr xs) = Inr xs"
| "py_iter (JStr s) = Inr (map JStr (code_points s))"
| "py_iter (JObj kvs) = Inr (map (\<lambda>kv. JStr (fst kv)) kvs)"
| "py_iter v = Inl TypeError"

subsection \<open>Numbers and text\<close>

text \<open>The numeric value of a number (\<^verbatim>\<open>bool\<close> is a subclass of \<^verbatim>\<open>int\<close>).\<close>

fun py_number :: "json \<Rightarrow> rat option" where
  "py_number (JInt i) = Some (of_int i)"
| "py_number (JFloat r) = Some r"
| "py_number (JBool b) = Some (if b then 1 else 0)"
| "py_number v = None"

text \<open>\<^verbatim>\<open>x / d\<close> and \<^verbatim>\<open>x * y\<close> where the source computes with floats.\<close>

definition py_truediv :: "json \<Rightarrow> rat \<Rightarrow> py_error + json" where
  "py_truediv v d = (case py_number v of None \<Rightarrow> Inl TypeError | Some r \<Rightarrow> Inr (JFloat (r / d)))"

definition py_mul :: "json \<Rightarrow> json \<Rightarrow> py_error + json" where
  "py_mul a b =
     (case (py_number a, py_number b) of
        (Some x, Some y) \<Rightarrow> Inr (JFloat (x * y))
      | _ \<Rightarrow> Inl TypeError)"

definition NL :: string where
  "NL = [CHR 0x0A]"

text \<open>Whitespace as \<^verbatim>\<open>str.strip\<close> sees it, on ASCII: the reports the source strips
  begin and end with text of its own.\<close>

definition is_space :: "char \<Rightarrow> bool" where
  "is_space c =
     (c \<in> set [CHR 0x09, CHR 0x0A, CHR 0x0B, CHR 0x0C, CHR 0x0D,
                CHR 0x1C, CHR 0x1D, CHR 0x1E, CHR 0x1F, CHR '' ''])"

definition py_strip :: "string \<Rightarrow> string" where
  "py_strip s = rev (dropWhile is_space (rev (dropWhile is_space s)))"

text \<open>\<^verbatim>\<open>str(i)\<close> and \<^verbatim>\<open>format(i, ",")\<close> for an integer.\<close>

fun digits_of :: "nat \<Rightarrow> string" where
  "digits_of n =
     (if n < 10 then [''0123456789'' ! n]
      else digits_of (n div 10) @ [''0123456789'' ! (n mod 10)])"

declare digits_of.simps [simp del]

definition py_str_int :: "int \<Rightarrow> string" where
  "py_str_int i = (if i < 0 then ''-'' @ digits_of (nat (- i)) else digits_of (nat i))"

fun group3 :: "string \<Rightarrow> string" where
  "group3 ds =
     (if length ds \<le> 3 then ds
      else group3 (take (length ds - 3) ds) @ '','' @ drop (length ds - 3) ds)"

declare group3.simps [simp del]

definition py_comma_int :: "int \<Rightarrow> string" where
  "py_comma_int i =
     (if i < 0 then ''-'' @ group3 (digits_of (nat (- i))) else group3 (digits_of (nat i)))"

text \<open>
  \<^verbatim>\<open>int(s)\<close> for a string. On ASCII: surrounding whitespace (tab to carriage return,
  and the space; not the separators \<^verbatim>\<open>0x1C\<close> to \<^verbatim>\<open>0x1F\<close> that \<^verbatim>\<open>str.strip\<close> removes),
  an optional sign, decimal digits with single underscores between them, no more
  digits than the limit allows. Python also reads digits and strips whitespace outside
  ASCII; for a string with such characters the integer is the library's.
\<close>

definition is_int_space :: "char \<Rightarrow> bool" where
  "is_int_space c =
     (c \<in> set [CHR 0x09, CHR 0x0A, CHR 0x0B, CHR 0x0C, CHR 0x0D, CHR '' ''])"

definition int_strip :: "string \<Rightarrow> string" where
  "int_strip s = rev (dropWhile is_int_space (rev (dropWhile is_int_space s)))"

definition is_digit :: "char \<Rightarrow> bool" where
  "is_digit c = (CHR ''0'' \<le> c \<and> c \<le> CHR ''9'')"

fun digits_ok :: "string \<Rightarrow> bool" where
  "digits_ok [] = False"
| "digits_ok [c] = is_digit c"
| "digits_ok (c # d # cs) =
     (is_digit c \<and> (if d = CHR ''_'' then digits_ok cs else digits_ok (d # cs)))"

definition digits_value :: "string \<Rightarrow> int" where
  "digits_value cs =
     fold (\<lambda>c acc. if c = CHR ''_'' then acc else 10 * acc + (int (of_char c) - 48)) cs 0"

definition ascii_int_of_str :: "string \<Rightarrow> int option" where
  "ascii_int_of_str s =
     (case int_strip s of
        [] \<Rightarrow> None
      | c # cs \<Rightarrow>
          if c = CHR ''-'' then (if digits_ok cs then Some (- digits_value cs) else None)
          else if c = CHR ''+'' then (if digits_ok cs then Some (digits_value cs) else None)
          else if digits_ok (c # cs) then Some (digits_value (c # cs)) else None)"

definition within_digit_limit :: "pylib \<Rightarrow> string \<Rightarrow> bool" where
  "within_digit_limit lib s =
     (case max_str_digits lib of
        None \<Rightarrow> True
      | Some limit \<Rightarrow> length (filter is_digit s) \<le> limit)"

definition py_int_of_str :: "pylib \<Rightarrow> string \<Rightarrow> int option" where
  "py_int_of_str lib s =
     (if is_ascii s
      then (if within_digit_limit lib s then ascii_int_of_str s else None)
      else unicode_int lib s)"

text \<open>\<^verbatim>\<open>int(x)\<close>: a float is truncated towards zero.\<close>

fun py_int :: "pylib \<Rightarrow> json \<Rightarrow> py_error + int" where
  "py_int lib (JInt i) = Inr i"
| "py_int lib (JBool b) = Inr (if b then 1 else 0)"
| "py_int lib (JFloat r) = Inr (if 0 \<le> r then \<lfloor>r\<rfloor> else \<lceil>r\<rceil>)"
| "py_int lib (JStr s) = (case py_int_of_str lib s of None \<Rightarrow> Inl ValueError | Some i \<Rightarrow> Inr i)"
| "py_int lib v = Inl TypeError"

fun py_str :: "pylib \<Rightarrow> json \<Rightarrow> string" where
  "py_str lib (JStr t) = t"
| "py_str lib (JInt i) = py_str_int i"
| "py_str lib (JBool b) = (if b then ''True'' else ''False'')"
| "py_str lib JNull = ''None''"
| "py_str lib v = repr lib v"

text \<open>
  \<^verbatim>\<open>format(x, spec)\<close> as an f-string field \<^verbatim>\<open>{x:spec}\<close> does it, for the specs of the
  source (\<^verbatim>\<open>,\<close> \<^verbatim>\<open>,.0f\<close> \<^verbatim>\<open>,.2f\<close> \<^verbatim>\<open>+.2f\<close> \<^verbatim>\<open>.2f\<close> \<^verbatim>\<open>.1f\<close>): they are number
  formats, so a string raises \<^verbatim>\<open>ValueError\<close>, and \<^verbatim>\<open>None\<close>, a list or a dict raises
  \<^verbatim>\<open>TypeError\<close>. The empty spec is \<^verbatim>\<open>str(x)\<close>.
\<close>

definition py_format :: "pylib \<Rightarrow> string \<Rightarrow> json \<Rightarrow> py_error + string" where
  "py_format lib spec v =
     (if spec = [] then Inr (py_str lib v)
      else case v of
             JInt i \<Rightarrow> Inr (if spec = '','' then py_comma_int i else fmt lib spec v)
           | JBool b \<Rightarrow> Inr (if spec = '','' then py_comma_int (if b then 1 else 0)
                              else fmt lib spec (JInt (if b then 1 else 0)))
           | JFloat r \<Rightarrow> Inr (fmt lib spec v)
           | JStr t \<Rightarrow> Inl ValueError
           | _ \<Rightarrow> Inl TypeError)"

text \<open>\<^verbatim>\<open>float(x)\<close>.\<close>

definition py_float :: "pylib \<Rightarrow> json \<Rightarrow> py_error + json" where
  "py_float lib v =
     (case v of
        JStr t \<Rightarrow> (case float_of_str lib t of None \<Rightarrow> Inl ValueError | Some r \<Rightarrow> Inr (JFloat r))
      | _ \<Rightarrow> (case py_number v of None \<Rightarrow> Inl TypeError | Some r \<Rightarrow> Inr (JFloat r)))"

text \<open>
  An f-string: its pieces are evaluated from left to right, the first exception ends
  the evaluation, and the texts are joined.
\<close>

definition fstring :: "(py_error + string) list \<Rightarrow> py_error + string" where
  "fstring pieces = bnd (mapM_res (\<lambda>piece. piece) pieces) (\<lambda>texts. Inr (concat texts))"

text \<open>A field \<^verbatim>\<open>{d['k']:spec}\<close> and a field \<^verbatim>\<open>{d.get('k', default):spec}\<close>.\<close>

definition field :: "pylib \<Rightarrow> json \<Rightarrow> string \<Rightarrow> string \<Rightarrow> py_error + string" where
  "field lib d k spec = bnd (py_getitem d k) (py_format lib spec)"

definition field_get :: "pylib \<Rightarrow> json \<Rightarrow> string \<Rightarrow> json \<Rightarrow> string \<Rightarrow> py_error + string" where
  "field_get lib d k dflt spec = bnd (py_get d k dflt) (py_format lib spec)"

text \<open>A library used in the examples: it renders every formatted number as \<open>#\<close>,
  leaves every letter outside ASCII but the three above as it is, reads no integer
  from text outside ASCII, and has the digit limit of CPython 3.11.\<close>

definition plain_lib :: pylib where
  "plain_lib = \<lparr>fmt = (\<lambda>spec v. ''#''), repr = (\<lambda>v. ''#''), float_of_str = (\<lambda>t. None),
                 timestamp_ok = (\<lambda>t. True), unicode_upper = (\<lambda>q. q),
                 unicode_lower = (\<lambda>before q after. q), unicode_int = (\<lambda>t. None),
                 max_str_digits = Some 4300\<rparr>"


text \<open>A credential is configured when it is neither \<^verbatim>\<open>None\<close> nor empty.\<close>

definition key_set :: "string option \<Rightarrow> bool" where
  "key_set k = (case k of None \<Rightarrow> False | Some v \<Rightarrow> v \<noteq> [])"

definition the_key :: "string option \<Rightarrow> string" where
  "the_key k = (case k of None \<Rightarrow> [] | Some v \<Rightarrow> v)"


section \<open>The price and market client (\<^verbatim>\<open>CoinGeckoUtils\<close>)\<close>

text \<open>
  What \<^verbatim>\<open>requests.get\<close>, \<^verbatim>\<open>raise_for_status\<close> and \<^verbatim>\<open>response.json()\<close> give
  together: either a \<^verbatim>\<open>RequestException\<close> (transport failure, timeout, status 4xx or
  5xx, a body that is not JSON) or the decoded payload.
\<close>

datatype http_result = RequestException | Response json

text \<open>
  The upstream services: the answer of the price provider to an endpoint and its query
  parameters, the answer of the sentiment provider, and the time by which
  \<^verbatim>\<open>time.sleep\<close> oversleeps.
\<close>

record cg_world =
  cg_api :: "string \<Rightarrow> params \<Rightarrow> http_result"
  fng_api :: http_result
  cg_oversleep :: rat

text \<open>
  The client object: its attributes, the clock read by \<^verbatim>\<open>time.time()\<close>, the log of
  the requests sent so far and the log of the times at which they were dispatched
  (newest last).
\<close>

record cg_state =
  last_request_time :: rat
  rate_limit_delay :: rat
  clock :: rat
  requests :: "(string \<times> params) list"
  dispatched :: "rat list"

definition cg_init :: "rat \<Rightarrow> cg_state" where
  "cg_init now =
     \<lparr>last_request_time = 0, rate_limit_delay = 6 / 5, clock = now, requests = [],
      dispatched = []\<rparr>"

definition SYMBOL_TO_ID :: "(string \<times> string) list" where
  "SYMBOL_TO_ID =
     [(''BTC'', ''bitcoin''), (''ETH'', ''ethereum''), (''SOL'', ''solana''),
      (''MATIC'', ''matic-network''), (''AVAX'', ''avalanche-2''), (''BNB'', ''binancecoin''),
      (''ADA'', ''cardano''), (''DOT'', ''polkadot''), (''LINK'', ''chainlink''),
      (''UNI'', ''uniswap''), (''ATOM'', ''cosmos''), (''XRP'', ''ripple''),
      (''DOGE'', ''dogecoin''), (''SHIB'', ''shiba-inu''), (''LTC'', ''litecoin''),
      (''BCH'', ''bitcoin-cash''), (''NEAR'', ''near''), (''APT'', ''aptos''),
      (''ARB'', ''arbitrum''), (''OP'', ''optimism'')]"

text \<open>\<^verbatim>\<open>_rate_limit\<close>: sleep for the rest of the interval, then record the time.\<close>

definition cg_rate_limit :: "cg_world \<Rightarrow> cg_state \<Rightarrow> cg_state" where
  "cg_rate_limit w s =
     (let current_time = clock s;
          time_since_last_request = current_time - last_request_time s;
          now = (if time_since_last_request < rate_limit_delay s
                 then current_time + (rate_limit_delay s - time_since_last_request) + cg_oversleep w
                 else current_time)
      in s\<lparr>clock := now, last_request_time := now\<rparr>)"

text \<open>\<^verbatim>\<open>_make_request\<close>: the limiter, then the request, sent at the time the clock
  shows when the limiter returns; a failed request is the empty dict.\<close>

definition cg_make_request :: "cg_world \<Rightarrow> string \<Rightarrow> params \<Rightarrow> cg_state \<Rightarrow> json \<times> cg_state" where
  "cg_make_request w endpoint ps s =
     (let s1 = cg_rate_limit w s;
          s2 = s1\<lparr>requests := requests s1 @ [(endpoint, ps)],
                  dispatched := dispatched s1 @ [clock s1]\<rparr>
      in case cg_api w endpoint ps of
           RequestException \<Rightarrow> (JObj [], s2)
         | Response payload \<Rightarrow> (payload, s2))"

text \<open>The test \<^verbatim>\<open>data and "coins" in data and len(data["coins"]) > 0\<close>, evaluated left
  to right.\<close>

definition has_coins :: "json \<Rightarrow> py_error + bool" where
  "has_coins data =
     (if \<not> truthy data then Inr False
      else bnd (py_contains ''coins'' data) (\<lambda>present.
        if \<not> present then Inr False
        else bnd (py_getitem data ''coins'') (\<lambda>coins.
          bnd (py_len coins) (\<lambda>n. Inr (n > 0)))))"

definition first_coin_id :: "json \<Rightarrow> py_error + json" where
  "first_coin_id data =
     bnd (py_getitem data ''coins'') (\<lambda>coins.
       bnd (py_index0 coins) (\<lambda>coin. py_getitem coin ''id''))"

definition get_coin_id ::
  "pylib \<Rightarrow> cg_world \<Rightarrow> string \<Rightarrow> cg_state \<Rightarrow> (py_error + json) \<times> cg_state" where
  "get_coin_id lib w symbol0 s =
     (let symbol = py_upper lib symbol0
      in case map_of SYMBOL_TO_ID symbol of
           Some coin_id \<Rightarrow> (Inr (JStr coin_id), s)
         | None \<Rightarrow>
             (let (data, s') = cg_make_request w ''/search'' [(''query'', JStr symbol)] s
              in (bnd (has_coins data) (\<lambda>found.
                    if found then first_coin_id data else Inr (JStr (py_lower lib symbol))), s')))"

text \<open>The candle horizon of \<^verbatim>\<open>get_price_history\<close>.\<close>

definition valid_days :: "int list" where
  "valid_days = [1, 7, 14, 30, 90, 180, 365]"

definition days_param :: "int \<Rightarrow> py_error + int" where
  "days_param days = py_min_key (\<lambda>x. \<bar>x - days\<bar>) valid_days"


text \<open>An upstream used in the examples: the search endpoint knows one coin.\<close>

definition search_world :: cg_world where
  "search_world =
     \<lparr>cg_api = (\<lambda>endpoint ps.
          if endpoint = ''/search'' \<and> ps = [(''query'', JStr ''PEPE'')]
          then Response (JObj [(''coins'', JArr [JObj [(''id'', JStr ''pepe-coin'')]])])
          else RequestException),
       fng_api = RequestException, cg_oversleep = 0\<rparr>"


subsection \<open>Price history\<close>

text \<open>
  The data frames of \<^verbatim>\<open>get_price_history\<close>. A candle is a row of the frame built from
  the candle payload, indexed by its timestamp; the returned frame has the \<^verbatim>\<open>volume\<close>
  column beside it, where \<open>None\<close> is the missing value (\<^verbatim>\<open>NaN\<close>) of pandas.
  \<^verbatim>\<open>pd.DataFrame()\<close>, the frame without columns, is \<open>EmptyFrame\<close>. Timestamps are
  compared as the numbers they are.
\<close>

type_synonym candle = "rat \<times> json \<times> json \<times> json \<times> json"

record ohlcv_row =
  row_timestamp :: rat
  row_open :: json
  row_high :: json
  row_low :: json
  row_close :: json
  row_volume :: "json option"

datatype frame = EmptyFrame | Frame "ohlcv_row list"

fun with_volume :: "candle \<Rightarrow> json option \<Rightarrow> ohlcv_row" where
  "with_volume (t, opn, hi, lo, cl) v =
     \<lparr>row_timestamp = t, row_open = opn, row_high = hi, row_low = lo, row_close = cl,
      row_volume = v\<rparr>"

text \<open>
  \<^verbatim>\<open>pd.DataFrame(data, columns=[...])\<close> followed by \<^verbatim>\<open>pd.to_datetime(..., unit="ms")\<close>
  for a payload that is a list of rows of the expected width with a numeric timestamp.
  What pandas does with any other payload is not modelled: the result is \<open>Unmodelled\<close>.
\<close>

fun timestamp_of :: "json \<Rightarrow> rat option" where
  "timestamp_of (JInt i) = Some (of_int i)"
| "timestamp_of (JFloat r) = Some r"
| "timestamp_of v = None"

fun candle_row :: "json \<Rightarrow> py_error + candle" where
  "candle_row (JArr [t, opn, hi, lo, cl]) =
     (case timestamp_of t of None \<Rightarrow> Inl Unmodelled | Some ts \<Rightarrow> Inr (ts, opn, hi, lo, cl))"
| "candle_row v = Inl Unmodelled"

fun candle_frame :: "json \<Rightarrow> py_error + candle list" where
  "candle_frame (JArr rows) = mapM_res candle_row rows"
| "candle_frame v = Inl Unmodelled"

text \<open>A cell of the volume column: JSON \<^verbatim>\<open>null\<close> is stored as the missing value.\<close>

fun cell :: "json \<Rightarrow> json option" where
  "cell JNull = None"
| "cell v = Some v"

fun volume_row :: "json \<Rightarrow> py_error + rat \<times> json option" where
  "volume_row (JArr [t, v]) =
     (case timestamp_of t of None \<Rightarrow> Inl Unmodelled | Some ts \<Rightarrow> Inr (ts, cell v))"
| "volume_row v = Inl Unmodelled"

fun volume_frame :: "json \<Rightarrow> py_error + (rat \<times> json option) list" where
  "volume_frame (JArr rows) = mapM_res volume_row rows"
| "volume_frame v = Inl Unmodelled"

text \<open>
  \<^verbatim>\<open>df.join(volume_df, how="left")\<close> on the timestamp index: every candle is kept, in
  order, once for each volume point with its timestamp, and once with a missing volume
  when there is none.
\<close>

definition join_left :: "candle list \<Rightarrow> (rat \<times> json option) list \<Rightarrow> ohlcv_row list" where
  "join_left df volume_df =
     concat (map (\<lambda>c. case filter (\<lambda>p. fst p = fst c) volume_df of
                         [] \<Rightarrow> [with_volume c None]
                       | ps \<Rightarrow> map (\<lambda>p. with_volume c (snd p)) ps) df)"

definition merge_volume :: "candle list \<Rightarrow> json \<Rightarrow> py_error + frame" where
  "merge_volume df volume_data =
     (let zero = Inr (Frame (map (\<lambda>c. with_volume c (Some (JInt 0))) df))
      in if \<not> truthy volume_data then zero
         else bnd (py_contains ''total_volumes'' volume_data) (\<lambda>present.
           if \<not> present then zero
           else bnd (py_getitem volume_data ''total_volumes'') (\<lambda>total_volumes.
             bnd (volume_frame total_volumes) (\<lambda>volume_df.
               Inr (Frame (join_left df volume_df))))))"

definition get_price_history ::
  "pylib \<Rightarrow> cg_world \<Rightarrow> string \<Rightarrow> int \<Rightarrow> string \<Rightarrow> cg_state \<Rightarrow> (py_error + frame) \<times> cg_state" where
  "get_price_history lib w symbol days vs_currency s =
     (let (resolved, s1) = get_coin_id lib w symbol s
      in case resolved of
           Inl e \<Rightarrow> (Inl e, s1)
         | Inr coin_id \<Rightarrow>
             (case days_param days of
                Inl e \<Rightarrow> (Inl e, s1)
              | Inr horizon \<Rightarrow>
                  (let (data, s2) =
                         cg_make_request w (''/coins/'' @ py_str lib coin_id @ ''/ohlc'')
                           [(''vs_currency'', JStr vs_currency), (''days'', JInt horizon)] s1
                   in if \<not> truthy data then (Inr EmptyFrame, s2)
                      else case candle_frame data of
                             Inl e \<Rightarrow> (Inl e, s2)
                           | Inr df \<Rightarrow>
                               (let (volume_data, s3) =
                                      cg_make_request w
                                        (''/coins/'' @ py_str lib coin_id @ ''/market_chart'')
                                        [(''vs_currency'', JStr vs_currency),
                                         (''days'', JInt (min days 365))] s2
                                in (merge_volume df volume_data, s3)))))"

text \<open>
  An upstream used in the examples: two daily candles, and a volume series whose only
  point at a candle's timestamp is the first.
\<close>

definition history_world :: cg_world where
  "history_world =
     \<lparr>cg_api = (\<lambda>endpoint ps.
          if endpoint = ''/coins/bitcoin/ohlc''
          then Response (JArr [JArr [JInt 1000, JInt 10, JInt 12, JInt 9, JInt 11],
                               JArr [JInt 2000, JInt 11, JInt 13, JInt 10, JInt 12]])
          else if endpoint = ''/coins/bitcoin/market_chart''
          then Response (JObj [(''total_volumes'',
                                JArr [JArr [JInt 1000, JInt 500], JArr [JInt 1700, JInt 600]])])
          else RequestException),
       fng_api = RequestException, cg_oversleep = 0\<rparr>"


subsection \<open>The global market summary\<close>

definition fear_greed_default :: json where
  "fear_greed_default =
     JObj [(''value'', JInt 50), (''value_classification'', JStr ''Neutral''),
           (''timestamp'', JStr []), (''time_until_update'', JStr [])]"

text \<open>The body of the \<^verbatim>\<open>try\<close> block of \<^verbatim>\<open>get_fear_greed_index\<close> once the response is
  decoded: \<open>None\<close> when the test fails and control falls through to the default.\<close>

definition fear_greed_latest :: "pylib \<Rightarrow> json \<Rightarrow> py_error + json option" where
  "fear_greed_latest lib data =
     (if \<not> truthy data then Inr None
      else bnd (py_contains ''data'' data) (\<lambda>present.
        if \<not> present then Inr None
        else bnd (py_getitem data ''data'') (\<lambda>entries.
          bnd (py_len entries) (\<lambda>n.
            if \<not> 0 < n then Inr None
            else bnd (py_getitem data ''data'') (\<lambda>entries'.
              bnd (py_index0 entries') (\<lambda>latest.
              bnd (py_get latest ''value'' (JInt 50)) (\<lambda>v.
              bnd (py_int lib v) (\<lambda>value.
              bnd (py_get latest ''value_classification'' (JStr ''Neutral'')) (\<lambda>classification.
              bnd (py_get latest ''timestamp'' (JStr [])) (\<lambda>ts.
              bnd (py_get latest ''time_until_update'' (JStr [])) (\<lambda>until.
                Inr (Some (JObj [(''value'', JInt value),
                                 (''value_classification'', classification),
                                 (''timestamp'', ts),
                                 (''time_until_update'', until)])))))))))))))"

text \<open>\<^verbatim>\<open>get_fear_greed_index\<close>: the request is sent outside the limiter, and every
  exception is caught.\<close>

definition get_fear_greed_index :: "pylib \<Rightarrow> cg_world \<Rightarrow> json" where
  "get_fear_greed_index lib w =
     (case fng_api w of
        RequestException \<Rightarrow> fear_greed_default
      | Response data \<Rightarrow>
          (case fear_greed_latest lib data of
             Inl e \<Rightarrow> fear_greed_default
           | Inr None \<Rightarrow> fear_greed_default
           | Inr (Some index) \<Rightarrow> index))"

text \<open>\<^verbatim>\<open>d.get(k1, {}).get(k2, default)\<close>.\<close>

definition get2 :: "json \<Rightarrow> string \<Rightarrow> string \<Rightarrow> json \<Rightarrow> py_error + json" where
  "get2 d k1 k2 dflt = bnd (py_get d k1 (JObj [])) (\<lambda>inner. py_get inner k2 dflt)"

definition global_fields :: "json \<Rightarrow> py_error + json" where
  "global_fields global_data =
     bnd (py_get global_data ''active_cryptocurrencies'' (JInt 0)) (\<lambda>active.
     bnd (py_get global_data ''markets'' (JInt 0)) (\<lambda>markets.
     bnd (get2 global_data ''total_market_cap'' ''usd'' (JInt 0)) (\<lambda>cap.
     bnd (get2 global_data ''total_volume'' ''usd'' (JInt 0)) (\<lambda>vol.
     bnd (py_get global_data ''market_cap_change_percentage_24h_usd'' (JInt 0)) (\<lambda>change.
     bnd (get2 global_data ''market_cap_percentage'' ''btc'' (JInt 0)) (\<lambda>btc.
     bnd (get2 global_data ''market_cap_percentage'' ''eth'' (JInt 0)) (\<lambda>eth.
       Inr (JObj [(''active_cryptocurrencies'', active), (''markets'', markets),
                  (''total_market_cap_usd'', cap), (''total_volume_usd'', vol),
                  (''market_cap_change_percentage_24h'', change),
                  (''btc_dominance'', btc), (''eth_dominance'', eth)]))))))))"

definition get_global_market_data :: "cg_world \<Rightarrow> cg_state \<Rightarrow> (py_error + json) \<times> cg_state" where
  "get_global_market_data w s =
     (let (data, s1) = cg_make_request w ''/global'' [] s
      in (if \<not> truthy data then Inr (JObj [])
          else bnd (py_contains ''data'' data) (\<lambda>present.
            if \<not> present then Inr (JObj [])
            else bnd (py_getitem data ''data'') global_fields), s1))"

text \<open>The f-string of \<^verbatim>\<open>get_global_market_summary\<close>, stripped.\<close>

definition global_summary_text :: "pylib \<Rightarrow> json \<Rightarrow> json \<Rightarrow> py_error + string" where
  "global_summary_text lib global_data fear_greed =
     bnd (fstring
       [Inr (NL @ ''=== Global Crypto Market Overview ==='' @ NL @ NL @ ''Total Market Cap: $''),
        field lib global_data ''total_market_cap_usd'' '',.0f'',
        Inr (NL @ ''24h Market Cap Change: ''),
        field lib global_data ''market_cap_change_percentage_24h'' ''+.2f'',
        Inr (''%'' @ NL @ ''Total 24h Volume: $''),
        field lib global_data ''total_volume_usd'' '',.0f'',
        Inr (NL @ NL @ ''Market Dominance:'' @ NL @ ''  Bitcoin: ''),
        field lib global_data ''btc_dominance'' ''.2f'',
        Inr (''%'' @ NL @ ''  Ethereum: ''),
        field lib global_data ''eth_dominance'' ''.2f'',
        Inr (''%'' @ NL @ NL @ ''Active Cryptocurrencies: ''),
        field lib global_data ''active_cryptocurrencies'' '','',
        Inr (NL @ ''Active Markets: ''),
        field lib global_data ''markets'' '','',
        Inr (NL @ NL @ ''Fear & Greed Index: ''),
        field lib fear_greed ''value'' [],
        Inr ''/100 ('',
        field lib fear_greed ''value_classification'' [],
        Inr ('')'' @ NL)])
       (\<lambda>summary. Inr (py_strip summary))"

definition get_global_market_summary ::
  "pylib \<Rightarrow> cg_world \<Rightarrow> cg_state \<Rightarrow> (py_error + string) \<times> cg_state" where
  "get_global_market_summary lib w s =
     (let (fetched, s1) = get_global_market_data w s
      in case fetched of
           Inl e \<Rightarrow> (Inl e, s1)
         | Inr global_data \<Rightarrow>
             (let fear_greed = get_fear_greed_index lib w
              in if \<not> truthy global_data then (Inr ''Could not fetch global market data'', s1)
                 else (global_summary_text lib global_data fear_greed, s1)))"

text \<open>Two upstreams used in the examples: in the first the market aggregates answer and
  the sentiment index fails, in the second it is the other way round.\<close>

definition market_only_world :: cg_world where
  "market_only_world =
     \<lparr>cg_api = (\<lambda>endpoint ps.
          if endpoint = ''/global''
          then Response (JObj [(''data'', JObj [(''active_cryptocurrencies'', JInt 17000),
                                               (''markets'', JInt 1200)])])
          else RequestException),
       fng_api = RequestException, cg_oversleep = 0\<rparr>"

definition sentiment_only_world :: cg_world where
  "sentiment_only_world =
     \<lparr>cg_api = (\<lambda>endpoint ps. RequestException),
       fng_api = Response (JObj [(''data'', JArr [JObj [(''value'', JStr ''25''),
                                    (''value_classification'', JStr ''Extreme Fear'')]])]),
       cg_oversleep = 0\<rparr>"


section \<open>The per-source rate limiter of the on-chain and the news client\<close>

text \<open>
  \<^verbatim>\<open>OnChainUtils._rate_limit\<close> and \<^verbatim>\<open>CryptoNewsUtils._rate_limit\<close> are the same code:
  a dict from the source tag to the time of its last request, read with default 0.
  The argument \<open>oversleep\<close> of the model is the time by which \<^verbatim>\<open>time.sleep\<close>
  oversleeps. The state also logs every request with its tag and the time at which it
  was dispatched (newest last).
\<close>

record limiter_state =
  tag_last_request_time :: "string \<rightharpoonup> rat"
  tag_rate_limit_delay :: rat
  tag_clock :: rat
  tag_dispatched :: "(string \<times> rat) list"


definition tagged_rate_limit :: "string \<Rightarrow> rat \<Rightarrow> limiter_state \<Rightarrow> limiter_state" where
  "tagged_rate_limit api_name oversleep s =
     (let current_time = tag_clock s;
          last_time = (case tag_last_request_time s api_name of None \<Rightarrow> 0 | Some t \<Rightarrow> t);
          time_since_last = current_time - last_time;
          now = (if time_since_last < tag_rate_limit_delay s
                 then current_time + (tag_rate_limit_delay s - time_since_last) + oversleep
                 else current_time)
      in s\<lparr>tag_clock := now,
           tag_last_request_time := (tag_last_request_time s)(api_name \<mapsto> now)\<rparr>)"

definition onchain_rate_limit :: "string \<Rightarrow> rat \<Rightarrow> limiter_state \<Rightarrow> limiter_state" where
  "onchain_rate_limit = tagged_rate_limit"

definition news_rate_limit :: "string \<Rightarrow> rat \<Rightarrow> limiter_state \<Rightarrow> limiter_state" where
  "news_rate_limit = tagged_rate_limit"


section \<open>The on-chain metrics client (\<^verbatim>\<open>OnChainUtils\<close>)\<close>

text \<open>
  The upstream services answer a URL and its query parameters; \<open>mempool_text\<close> is
  the body of the unconfirmed-count request (\<open>None\<close> when the request raises).
\<close>

record onchain_world =
  oc_api :: "string \<Rightarrow> params \<Rightarrow> http_result"
  mempool_text :: "string option"

record onchain_keys =
  cryptocompare_key :: "string option"
  etherscan_key :: "string option"
  glassnode_key :: "string option"

text \<open>
  A request of the client is the call \<^verbatim>\<open>self._rate_limit(api_name)\<close> followed by the
  send, at the time the clock shows when the limiter returns: so in \<^verbatim>\<open>_make_request\<close>,
  and so, inline, in the CryptoCompare and Glassnode fetches.
\<close>

definition onchain_dispatch :: "string \<Rightarrow> rat \<Rightarrow> limiter_state \<Rightarrow> limiter_state" where
  "onchain_dispatch api_name oversleep s =
     (let s1 = onchain_rate_limit api_name oversleep s
      in s1\<lparr>tag_dispatched := tag_dispatched s1 @ [(api_name, tag_clock s1)]\<rparr>)"

text \<open>\<^verbatim>\<open>_make_request\<close>: the limiter for the tag, then the request; a failed request is
  the empty dict.\<close>

definition onchain_make_request ::
  "onchain_world \<Rightarrow> string \<Rightarrow> params \<Rightarrow> string \<Rightarrow> rat \<Rightarrow> limiter_state
     \<Rightarrow> json \<times> limiter_state" where
  "onchain_make_request w url ps api_name oversleep s =
     (let s2 = onchain_dispatch api_name oversleep s
      in case oc_api w url ps of
           RequestException \<Rightarrow> (JObj [], s2)
         | Response payload \<Rightarrow> (payload, s2))"

text \<open>
  The limiter delays a request and changes no result: what \<^verbatim>\<open>_make_request\<close> returns
  is a function of the upstream's answer alone (lemma \<open>onchain_make_request_payload\<close>
  below). The fetches of this client are written over that function.
\<close>

definition oc_make_request :: "onchain_world \<Rightarrow> string \<Rightarrow> params \<Rightarrow> json" where
  "oc_make_request w url ps =
     (case oc_api w url ps of RequestException \<Rightarrow> JObj [] | Response payload \<Rightarrow> payload)"

subsection \<open>Bitcoin\<close>

definition get_bitcoin_network_stats :: "onchain_world \<Rightarrow> py_error + json" where
  "get_bitcoin_network_stats w =
     (let data = oc_make_request w ''https://blockchain.info/stats?format=json'' []
      in if \<not> truthy data then Inr (JObj [])
         else
           bnd (py_get data ''market_price_usd'' (JInt 0)) (\<lambda>market_price_usd.
           bnd (py_get data ''hash_rate'' (JInt 0)) (\<lambda>hash_rate.
           bnd (py_get data ''difficulty'' (JInt 0)) (\<lambda>difficulty.
           bnd (py_get data ''total_btc_sent'' (JInt 0)) (\<lambda>sent.
           bnd (py_truediv sent (10 ^ 8)) (\<lambda>total_btc_sent.
           bnd (py_get data ''n_tx'' (JInt 0)) (\<lambda>n_transactions.
           bnd (py_get data ''n_blocks_total'' (JInt 0)) (\<lambda>n_blocks_total.
           bnd (py_get data ''minutes_between_blocks'' (JInt 0)) (\<lambda>minutes_between_blocks.
           bnd (py_get data ''totalbc'' (JInt 0)) (\<lambda>mined.
           bnd (py_truediv mined (10 ^ 8)) (\<lambda>totalbc.
           bnd (py_get data ''estimated_transaction_volume_usd'' (JInt 0)) (\<lambda>volume_usd.
           bnd (py_get data ''blocks_size'' (JInt 0)) (\<lambda>blocks_size.
           bnd (py_get data ''miners_revenue_usd'' (JInt 0)) (\<lambda>miners_revenue_usd.
           bnd (py_get data ''timestamp'' (JInt 0)) (\<lambda>ts.
             Inr (JObj [(''market_price_usd'', market_price_usd), (''hash_rate'', hash_rate),
                        (''difficulty'', difficulty), (''total_btc_sent'', total_btc_sent),
                        (''n_transactions'', n_transactions),
                        (''n_blocks_total'', n_blocks_total),
                        (''minutes_between_blocks'', minutes_between_blocks),
                        (''totalbc'', totalbc),
                        (''estimated_transaction_volume_usd'', volume_usd),
                        (''blocks_size'', blocks_size),
                        (''miners_revenue_usd'', miners_revenue_usd),
                        (''timestamp'', ts)]))))))))))))))))"

text \<open>\<^verbatim>\<open>get_bitcoin_mempool_info\<close>: the whole body is inside \<^verbatim>\<open>try\<close>, and a failure
  gives the empty dict.\<close>

definition get_bitcoin_mempool_info :: "pylib \<Rightarrow> onchain_world \<Rightarrow> json" where
  "get_bitcoin_mempool_info lib w =
     (case mempool_text w of
        None \<Rightarrow> JObj []
      | Some body \<Rightarrow>
          (case py_int_of_str lib body of
             None \<Rightarrow> JObj []
           | Some unconfirmed_count \<Rightarrow>
               JObj [(''unconfirmed_transactions'', JInt unconfirmed_count),
                     (''mempool_size_mb'', JFloat (of_int unconfirmed_count * (5 / 10000))),
                     (''congestion_level'',
                      JStr (if unconfirmed_count > 10000 then ''High''
                            else if unconfirmed_count < 2000 then ''Low'' else ''Medium''))]))"

text \<open>\<^verbatim>\<open>datetime.fromtimestamp(t)\<close>; the model keeps the timestamp as the value.\<close>

definition py_fromtimestamp :: "pylib \<Rightarrow> json \<Rightarrow> py_error + json" where
  "py_fromtimestamp lib t =
     (case py_number t of
        None \<Rightarrow> Inl TypeError
      | Some r \<Rightarrow> if timestamp_ok lib r then Inr t else Inl ValueError)"

text \<open>One round of the loop of \<^verbatim>\<open>get_bitcoin_large_transactions\<close>: the entries it
  appends.\<close>

definition large_tx :: "pylib \<Rightarrow> onchain_world \<Rightarrow> rat \<Rightarrow> json \<Rightarrow> py_error + json list" where
  "large_tx lib w min_value_btc tx =
     bnd (py_get tx ''out'' JNull) (\<lambda>has_out.
     bnd (if truthy has_out
          then bnd (py_get tx ''out'' (JArr [JObj []])) (\<lambda>outs.
               bnd (py_index0 outs) (\<lambda>first_out.
               bnd (py_get first_out ''value'' (JInt 0)) (\<lambda>v. py_truediv v (10 ^ 8))))
          else Inr (JInt 0)) (\<lambda>value_btc.
     bnd (case py_number value_btc of
            None \<Rightarrow> Inl TypeError
          | Some r \<Rightarrow> Inr (min_value_btc \<le> r)) (\<lambda>large.
       if \<not> large then Inr []
       else
         bnd (py_get tx ''hash'' (JStr [])) (\<lambda>hash.
         bnd (get_bitcoin_network_stats w) (\<lambda>stats.
         bnd (py_get stats ''market_price_usd'' (JInt 0)) (\<lambda>price.
         bnd (py_mul value_btc price) (\<lambda>value_usd.
         bnd (py_get tx ''time'' (JInt 0)) (\<lambda>t.
         bnd (py_fromtimestamp lib t) (\<lambda>time.
         bnd (py_get tx ''size'' (JInt 0)) (\<lambda>size.
           Inr [JObj [(''hash'', hash), (''value_btc'', value_btc), (''value_usd'', value_usd),
                      (''time'', time), (''size'', size)]]))))))))))"

definition get_bitcoin_large_transactions ::
  "pylib \<Rightarrow> onchain_world \<Rightarrow> rat \<Rightarrow> py_error + json list" where
  "get_bitcoin_large_transactions lib w min_value_btc =
     (let data = oc_make_request w ''https://blockchain.info/unconfirmed-transactions?format=json'' []
      in if \<not> truthy data then Inr []
         else bnd (py_contains ''txs'' data) (\<lambda>present.
           if \<not> present then Inr []
           else bnd (py_get data ''txs'' (JArr [])) (\<lambda>txs.
                bnd (py_slice_json txs 20) (\<lambda>recent.
                bnd (mapM_res (large_tx lib w min_value_btc) recent) (\<lambda>found.
                  Inr (concat found))))))"

definition whale_line :: "pylib \<Rightarrow> nat \<times> json \<Rightarrow> py_error + string" where
  "whale_line lib entry =
     fstring [Inr (NL @ ''  '' @ py_str_int (int (fst entry)) @ ''. ''),
              field lib (snd entry) ''value_btc'' ''.2f'',
              Inr '' BTC ($'',
              field lib (snd entry) ''value_usd'' '',.0f'',
              Inr '')'']"

definition get_bitcoin_onchain_summary :: "pylib \<Rightarrow> onchain_world \<Rightarrow> py_error + string" where
  "get_bitcoin_onchain_summary lib w =
     bnd (get_bitcoin_network_stats w) (\<lambda>network_stats.
     (let mempool_info = get_bitcoin_mempool_info lib w
      in bnd (get_bitcoin_large_transactions lib w 50) (\<lambda>large_txs.
         if \<not> truthy network_stats then Inr ''Could not fetch Bitcoin on-chain data''
         else
           bnd (fstring
             [Inr (NL @ ''=== Bitcoin On-Chain Metrics ==='' @ NL @ NL @ ''Network Health:'' @ NL
                   @ ''  Hash Rate: ''),
              bnd (py_getitem network_stats ''hash_rate'') (\<lambda>h.
                bnd (py_truediv h (10 ^ 9)) (py_format lib ''.2f'')),
              Inr ('' EH/s'' @ NL @ ''  Difficulty: ''),
              field lib network_stats ''difficulty'' '',.0f'',
              Inr (NL @ ''  Avg Block Time: ''),
              field lib network_stats ''minutes_between_blocks'' ''.1f'',
              Inr ('' minutes'' @ NL @ ''  Total BTC Mined: ''),
              field lib network_stats ''totalbc'' '',.2f'',
              Inr ('' BTC'' @ NL @ NL @ ''Transaction Activity (24h):'' @ NL
                   @ ''  Total Transactions: ''),
              field lib network_stats ''n_transactions'' '','',
              Inr (NL @ ''  Volume: $''),
              field lib network_stats ''estimated_transaction_volume_usd'' '',.0f'',
              Inr (NL @ ''  Miner Revenue: $''),
              field lib network_stats ''miners_revenue_usd'' '',.0f'',
              Inr (NL @ NL @ ''Mempool Status:'' @ NL @ ''  Unconfirmed Transactions: ''),
              field_get lib mempool_info ''unconfirmed_transactions'' (JStr ''N/A'') '','',
              Inr (NL @ ''  Network Congestion: ''),
              field_get lib mempool_info ''congestion_level'' (JStr ''Unknown'') [],
              Inr (NL @ NL @ ''Whale Activity (Recent Large Transactions):'' @ NL)])
             (\<lambda>summary.
                bnd (if large_txs \<noteq> []
                     then fstring (map (whale_line lib) (enumerate 1 (py_slice_to large_txs 5)))
                     else Inr (NL @ ''  No large transactions detected recently''))
                  (\<lambda>whales. Inr (py_strip (summary @ whales)))))))"

subsection \<open>Ethereum\<close>

definition etherscan_ok :: "json \<Rightarrow> py_error + bool" where
  "etherscan_ok data =
     (if \<not> truthy data then Inr False
      else bnd (py_get data ''status'' JNull) (\<lambda>status. Inr (status = JStr ''1'')))"

definition get_ethereum_gas_stats ::
  "pylib \<Rightarrow> onchain_world \<Rightarrow> onchain_keys \<Rightarrow> py_error + json" where
  "get_ethereum_gas_stats lib w keys =
     (if \<not> key_set (etherscan_key keys)
      then Inr (JObj [(''error'', JStr ''Etherscan API key required'')])
      else
        (let data = oc_make_request w ''https://api.etherscan.io/api''
                      [(''module'', JStr ''gastracker''), (''action'', JStr ''gasoracle''),
                       (''apikey'', JStr (the_key (etherscan_key keys)))]
         in bnd (etherscan_ok data) (\<lambda>ok.
            if \<not> ok then Inr (JObj [])
            else
              bnd (py_get data ''result'' (JObj [])) (\<lambda>result.
              bnd (py_get result ''SafeGasPrice'' (JInt 0)) (\<lambda>v1.
              bnd (py_int lib v1) (\<lambda>safe.
              bnd (py_get result ''ProposeGasPrice'' (JInt 0)) (\<lambda>v2.
              bnd (py_int lib v2) (\<lambda>propose.
              bnd (py_get result ''FastGasPrice'' (JInt 0)) (\<lambda>v3.
              bnd (py_int lib v3) (\<lambda>fast.
              bnd (py_get result ''suggestBaseFee'' (JInt 0)) (\<lambda>v4.
              bnd (py_float lib v4) (\<lambda>base_fee.
              bnd (py_get result ''gasUsedRatio'' (JStr [])) (\<lambda>ratio.
                Inr (JObj [(''safe_gas_price'', JInt safe), (''propose_gas_price'', JInt propose),
                           (''fast_gas_price'', JInt fast), (''suggested_base_fee'', base_fee),
                           (''gas_used_ratio'', ratio),
                           (''network_congestion'',
                            JStr (if fast > 50 then ''High''
                                  else if fast < 20 then ''Low'' else ''Medium''))]))))))))))))))"

definition get_ethereum_supply_stats ::
  "pylib \<Rightarrow> onchain_world \<Rightarrow> onchain_keys \<Rightarrow> py_error + json" where
  "get_ethereum_supply_stats lib w keys =
     (if \<not> key_set (etherscan_key keys)
      then Inr (JObj [(''error'', JStr ''Etherscan API key required'')])
      else
        (let data = oc_make_request w ''https://api.etherscan.io/api''
                      [(''module'', JStr ''stats''), (''action'', JStr ''ethsupply''),
                       (''apikey'', JStr (the_key (etherscan_key keys)))]
         in bnd (etherscan_ok data) (\<lambda>ok.
            if \<not> ok then Inr (JObj [])
            else
              bnd (py_get data ''result'' (JInt 0)) (\<lambda>supply.
              bnd (py_int lib supply) (\<lambda>wei.
                (let total_supply = JFloat (of_int wei / 10 ^ 18);
                     data2 = oc_make_request w ''https://api.etherscan.io/api''
                               [(''module'', JStr ''stats''), (''action'', JStr ''ethsupply2''),
                                (''apikey'', JStr (the_key (etherscan_key keys)))]
                 in bnd (py_get data2 ''status'' JNull) (\<lambda>status2.
                    bnd (if status2 = JStr ''1'' then py_get data2 ''result'' (JObj [])
                         else Inr (JObj [])) (\<lambda>staking.
                      Inr (JObj [(''total_supply_eth'', total_supply),
                                 (''eth2_staking'', staking)])))))))))"

definition get_ethereum_onchain_summary ::
  "pylib \<Rightarrow> onchain_world \<Rightarrow> onchain_keys \<Rightarrow> py_error + string" where
  "get_ethereum_onchain_summary lib w keys =
     bnd (get_ethereum_gas_stats lib w keys) (\<lambda>gas_stats.
     bnd (get_ethereum_supply_stats lib w keys) (\<lambda>supply_stats.
     bnd (py_contains ''error'' gas_stats) (\<lambda>no_key.
       if no_key then Inr ''Etherscan API key required for Ethereum on-chain data''
       else
         bnd (fstring
           [Inr (NL @ ''=== Ethereum On-Chain Metrics ==='' @ NL @ NL @ ''Network Activity:'' @ NL
                 @ ''  Gas Prices (Gwei):'' @ NL @ ''    Safe: ''),
            field lib gas_stats ''safe_gas_price'' [],
            Inr (NL @ ''    Standard: ''),
            field lib gas_stats ''propose_gas_price'' [],
            Inr (NL @ ''    Fast: ''),
            field lib gas_stats ''fast_gas_price'' [],
            Inr (NL @ ''  Base Fee: ''),
            field lib gas_stats ''suggested_base_fee'' ''.2f'',
            Inr ('' Gwei'' @ NL @ ''  Network Congestion: ''),
            field lib gas_stats ''network_congestion'' [],
            Inr (NL @ NL @ ''Supply Metrics:'' @ NL @ ''  Total Supply: ''),
            field_get lib supply_stats ''total_supply_eth'' (JInt 0) '',.0f'',
            Inr ('' ETH'' @ NL)])
           (\<lambda>summary. Inr (py_strip summary)))))"

subsection \<open>Every other chain\<close>

definition cryptocompare_mappings :: "(string \<times> int) list" where
  "cryptocompare_mappings =
     [(''BTC'', 1182), (''ETH'', 7605), (''SOL'', 699785), (''MATIC'', 321992),
      (''AVAX'', 893373)]"

text \<open>\<^verbatim>\<open>_get_cryptocompare_coin_id\<close>: \<^verbatim>\<open>mappings.get(symbol.upper(), 0)\<close>.\<close>

definition get_cryptocompare_coin_id :: "pylib \<Rightarrow> string \<Rightarrow> int" where
  "get_cryptocompare_coin_id lib symbol =
     (case map_of cryptocompare_mappings (py_upper lib symbol) of
        None \<Rightarrow> 0
      | Some coin_id \<Rightarrow> coin_id)"

text \<open>The two fetches of the multi-chain provider send their request themselves and
  catch every exception.\<close>

definition on_chain_data :: "json \<Rightarrow> py_error + json" where
  "on_chain_data data =
     bnd (py_get data ''Response'' JNull) (\<lambda>response.
       if response \<noteq> JStr ''Success'' then Inr (JObj [])
       else bnd (py_contains ''Data'' data) (\<lambda>present.
         if present then py_getitem data ''Data'' else Inr (JObj [])))"

definition get_on_chain_summary ::
  "pylib \<Rightarrow> onchain_world \<Rightarrow> onchain_keys \<Rightarrow> string \<Rightarrow> json" where
  "get_on_chain_summary lib w keys symbol =
     (if \<not> key_set (cryptocompare_key keys)
      then JObj [(''error'', JStr ''CryptoCompare API key required'')]
      else case oc_api w ''https://min-api.cryptocompare.com/data/blockchain/latest''
                  [(''fsym'', JStr (py_upper lib symbol))] of
             RequestException \<Rightarrow> JObj []
           | Response data \<Rightarrow>
               (case on_chain_data data of Inl e \<Rightarrow> JObj [] | Inr found \<Rightarrow> found))"

definition social_fields :: "json \<Rightarrow> py_error + json" where
  "social_fields data =
     bnd (py_get data ''Response'' JNull) (\<lambda>response.
       if response \<noteq> JStr ''Success'' then Inr (JObj [])
       else bnd (py_contains ''Data'' data) (\<lambda>present.
         if \<not> present then Inr (JObj [])
         else
           bnd (py_getitem data ''Data'') (\<lambda>social_data.
           bnd (get2 social_data ''Reddit'' ''subscribers'' (JInt 0)) (\<lambda>subscribers.
           bnd (get2 social_data ''Reddit'' ''active_users'' (JInt 0)) (\<lambda>active_users.
           bnd (get2 social_data ''Reddit'' ''posts_per_day'' (JInt 0)) (\<lambda>posts_per_day.
           bnd (get2 social_data ''Twitter'' ''followers'' (JInt 0)) (\<lambda>followers.
           bnd (get2 social_data ''Twitter'' ''statuses'' (JInt 0)) (\<lambda>statuses.
             Inr (JObj [(''reddit_subscribers'', subscribers),
                        (''reddit_active_users'', active_users),
                        (''reddit_posts_per_day'', posts_per_day),
                        (''twitter_followers'', followers),
                        (''twitter_statuses'', statuses)])))))))))"

definition get_social_stats ::
  "pylib \<Rightarrow> onchain_world \<Rightarrow> onchain_keys \<Rightarrow> string \<Rightarrow> json" where
  "get_social_stats lib w keys symbol =
     (if \<not> key_set (cryptocompare_key keys)
      then JObj [(''error'', JStr ''CryptoCompare API key required'')]
      else case oc_api w ''https://min-api.cryptocompare.com/data/social/coin/latest''
                  [(''coinId'', JInt (get_cryptocompare_coin_id lib symbol))] of
             RequestException \<Rightarrow> JObj []
           | Response data \<Rightarrow>
               (case social_fields data of Inl e \<Rightarrow> JObj [] | Inr found \<Rightarrow> found))"

definition get_general_onchain_summary ::
  "pylib \<Rightarrow> onchain_world \<Rightarrow> onchain_keys \<Rightarrow> string \<Rightarrow> py_error + string" where
  "get_general_onchain_summary lib w keys symbol =
     (if py_upper lib symbol = ''BTC'' then get_bitcoin_onchain_summary lib w
      else if py_upper lib symbol = ''ETH'' then get_ethereum_onchain_summary lib w keys
      else
        (let onchain_data = get_on_chain_summary lib w keys symbol;
             social_data = get_social_stats lib w keys symbol
         in if \<not> truthy onchain_data \<and> \<not> truthy social_data
            then Inr (''Limited on-chain data available for '' @ symbol)
            else
              bnd (fstring
                ([Inr (''=== '' @ py_upper lib symbol @ '' On-Chain & Social Metrics ==='' @ NL)]
                 @ (if truthy social_data
                    then [Inr (NL @ ''Social Activity:'' @ NL @ ''  Reddit Subscribers: ''),
                          field_get lib social_data ''reddit_subscribers'' (JInt 0) '','',
                          Inr (NL @ ''  Reddit Active Users: ''),
                          field_get lib social_data ''reddit_active_users'' (JInt 0) '','',
                          Inr (NL @ ''  Twitter Followers: ''),
                          field_get lib social_data ''twitter_followers'' (JInt 0) '','',
                          Inr NL]
                    else [])))
                (\<lambda>summary. Inr (py_strip summary))))"

text \<open>Credentials and upstreams used in the examples.\<close>

definition no_keys :: onchain_keys where
  "no_keys = \<lparr>cryptocompare_key = None, etherscan_key = None, glassnode_key = None\<rparr>"

definition all_keys :: onchain_keys where
  "all_keys = \<lparr>cryptocompare_key = Some ''cc-key'', etherscan_key = Some ''es-key'',
                glassnode_key = None\<rparr>"

text \<open>Nothing answers.\<close>

definition down_world :: onchain_world where
  "down_world = \<lparr>oc_api = (\<lambda>url ps. RequestException), mempool_text = None\<rparr>"




text \<open>The network statistics answer; the mempool count and the transaction list fail.\<close>

definition stats_only_world :: onchain_world where
  "stats_only_world =
     \<lparr>oc_api = (\<lambda>url ps.
          if url = ''https://blockchain.info/stats?format=json''
          then Response (JObj [(''market_price_usd'', JInt 60000), (''n_tx'', JInt 350000)])
          else RequestException),
       mempool_text = None\<rparr>"

text \<open>The social endpoint answers the request for coin 0.\<close>

definition coin_zero_world :: onchain_world where
  "coin_zero_world =
     \<lparr>oc_api = (\<lambda>url ps.
          if url = ''https://min-api.cryptocompare.com/data/social/coin/latest''
             \<and> ps = [(''coinId'', JInt 0)]
          then Response (JObj [(''Response'', JStr ''Success''),
                 (''Data'', JObj [(''Reddit'', JObj [(''subscribers'', JInt 1234)])])])
          else RequestException),
       mempool_text = None\<rparr>"


section \<open>The news aggregator (\<^verbatim>\<open>CryptoNewsUtils\<close>)\<close>

text \<open>
  The upstream services: the query API answers a URL and its parameters, and for each
  feed URL \<^verbatim>\<open>feedparser\<close> returns entries (\<open>None\<close> when the call raises).
\<close>

record news_world =
  news_api :: "string \<Rightarrow> params \<Rightarrow> http_result"
  feed_entries :: "string \<Rightarrow> json list option"

text \<open>
  A request of the client is the call \<^verbatim>\<open>self._rate_limit(source)\<close> followed by the
  send, at the time the clock shows when the limiter returns.
\<close>

definition news_dispatch :: "string \<Rightarrow> rat \<Rightarrow> limiter_state \<Rightarrow> limiter_state" where
  "news_dispatch source oversleep s =
     (let s1 = news_rate_limit source oversleep s
      in s1\<lparr>tag_dispatched := tag_dispatched s1 @ [(source, tag_clock s1)]\<rparr>)"

text \<open>\<^verbatim>\<open>_make_request\<close>: the limiter for the source, then the request.\<close>

definition cryptonews_make_request ::
  "news_world \<Rightarrow> string \<Rightarrow> params \<Rightarrow> string \<Rightarrow> rat \<Rightarrow> limiter_state
     \<Rightarrow> json \<times> limiter_state" where
  "cryptonews_make_request w url ps source oversleep s =
     (let s2 = news_dispatch source oversleep s
      in case news_api w url ps of
           RequestException \<Rightarrow> (JObj [], s2)
         | Response payload \<Rightarrow> (payload, s2))"

text \<open>The first two statements of an RSS fetch: \<^verbatim>\<open>self._rate_limit(source)\<close>, then
  \<^verbatim>\<open>feedparser.parse(url)\<close>.\<close>

definition rss_fetch ::
  "news_world \<Rightarrow> string \<Rightarrow> string \<Rightarrow> rat \<Rightarrow> limiter_state
     \<Rightarrow> json list option \<times> limiter_state" where
  "rss_fetch w url source oversleep s = (feed_entries w url, news_dispatch source oversleep s)"

text \<open>
  As in the on-chain client, what \<^verbatim>\<open>_make_request\<close> returns is a function of the
  upstream's answer alone (lemma \<open>cryptonews_make_request_payload\<close> below), and no
  article depends on the limiter. The fetches of this client are written over the
  answers.
\<close>

definition news_make_request :: "news_world \<Rightarrow> string \<Rightarrow> params \<Rightarrow> json" where
  "news_make_request w url ps =
     (case news_api w url ps of RequestException \<Rightarrow> JObj [] | Response payload \<Rightarrow> payload)"

definition cryptopanic_article :: "json \<Rightarrow> py_error + json" where
  "cryptopanic_article item =
     bnd (py_get item ''title'' (JStr [])) (\<lambda>title.
     bnd (py_get item ''url'' (JStr [])) (\<lambda>url.
     bnd (py_get item ''source'' (JObj [])) (\<lambda>src.
     bnd (py_get src ''title'' (JStr [])) (\<lambda>source.
     bnd (py_get item ''published_at'' (JStr [])) (\<lambda>published_at.
     bnd (py_get item ''domain'' (JStr [])) (\<lambda>domain.
     bnd (py_get item ''votes'' (JObj [])) (\<lambda>v1.
     bnd (py_get v1 ''positive'' (JInt 0)) (\<lambda>positive.
     bnd (py_get item ''votes'' (JObj [])) (\<lambda>v2.
     bnd (py_get v2 ''negative'' (JInt 0)) (\<lambda>negative.
     bnd (py_get item ''votes'' (JObj [])) (\<lambda>v3.
     bnd (py_get v3 ''important'' (JInt 0)) (\<lambda>important.
     bnd (py_get item ''kind'' (JStr [])) (\<lambda>kind.
     bnd (py_get item ''currencies'' (JArr [])) (\<lambda>cur.
     bnd (py_iter cur) (\<lambda>cs.
     bnd (mapM_res (\<lambda>c. py_getitem c ''code'') cs) (\<lambda>codes.
       Inr (JObj [(''title'', title), (''url'', url), (''source'', source),
                  (''published_at'', published_at), (''domain'', domain),
                  (''votes'', JObj [(''positive'', positive), (''negative'', negative),
                                    (''important'', important)]),
                  (''kind'', kind), (''currencies'', JArr codes)])))))))))))))))))"

definition get_cryptopanic_news ::
  "pylib \<Rightarrow> news_world \<Rightarrow> string option \<Rightarrow> string option \<Rightarrow> string \<Rightarrow> int
     \<Rightarrow> py_error + json list" where
  "get_cryptopanic_news lib w cryptopanic_key symbol filter_type limit =
     (case cryptopanic_key of
        None \<Rightarrow> Inr []
      | Some k \<Rightarrow>
          if k = [] then Inr []
          else
            (let ps = [(''auth_token'', JStr k), (''filter'', JStr filter_type),
                       (''public'', JStr ''true'')]
                      @ (case symbol of
                           None \<Rightarrow> []
                         | Some ticker \<Rightarrow>
                             if ticker = [] then []
                             else [(''currencies'', JStr (py_upper lib ticker))]);
                 data = news_make_request w ''https://cryptopanic.com/api/v1/posts/'' ps
             in if \<not> truthy data then Inr []
                else bnd (py_contains ''results'' data) (\<lambda>present.
                  if \<not> present then Inr []
                  else bnd (py_getitem data ''results'') (\<lambda>results.
                    bnd (py_slice_json results limit) (mapM_res cryptopanic_article)))))"

definition rss_article :: "string \<Rightarrow> json \<Rightarrow> py_error + json" where
  "rss_article source_name entry =
     bnd (py_get entry ''title'' (JStr [])) (\<lambda>title.
     bnd (py_get entry ''link'' (JStr [])) (\<lambda>link.
     bnd (py_get entry ''published'' (JStr [])) (\<lambda>published.
     bnd (py_get entry ''summary'' (JStr [])) (\<lambda>summary.
       Inr (JObj [(''title'', title), (''url'', link), (''source'', JStr source_name),
                  (''published_at'', published), (''summary'', summary)])))))"

text \<open>The body shared by the five feed readers: any exception gives the empty list.\<close>

definition rss_news :: "news_world \<Rightarrow> string \<Rightarrow> string \<Rightarrow> int \<Rightarrow> json list" where
  "rss_news w url source_name limit =
     (case feed_entries w url of
        None \<Rightarrow> []
      | Some entries \<Rightarrow>
          (case mapM_res (rss_article source_name) (py_slice_to entries limit) of
             Inl e \<Rightarrow> []
           | Inr articles \<Rightarrow> articles))"

definition get_cointelegraph_news :: "news_world \<Rightarrow> int \<Rightarrow> json list" where
  "get_cointelegraph_news w limit = rss_news w ''https://cointelegraph.com/rss'' ''CoinTelegraph'' limit"

definition get_decrypt_news :: "news_world \<Rightarrow> int \<Rightarrow> json list" where
  "get_decrypt_news w limit = rss_news w ''https://decrypt.co/feed'' ''Decrypt'' limit"

definition get_coindesk_news :: "news_world \<Rightarrow> int \<Rightarrow> json list" where
  "get_coindesk_news w limit =
     rss_news w ''https://www.coindesk.com/arc/outboundfeeds/rss/'' ''CoinDesk'' limit"

definition get_theblock_news :: "news_world \<Rightarrow> int \<Rightarrow> json list" where
  "get_theblock_news w limit = rss_news w ''https://www.theblock.co/rss.xml'' ''The Block'' limit"

definition get_bitcoinmagazine_news :: "news_world \<Rightarrow> int \<Rightarrow> json list" where
  "get_bitcoinmagazine_news w limit =
     rss_news w ''https://bitcoinmagazine.com/.rss/full/'' ''Bitcoin Magazine'' limit"

text \<open>
  \<^verbatim>\<open>all_news.sort(key=lambda x: x.get("published_at", ""), reverse=True)\<close> inside
  \<^verbatim>\<open>try\<close>/\<^verbatim>\<open>except: pass\<close>. The key is the stored text, compared as a string. When
  every key is a string the sort is the stable descending sort (\<^verbatim>\<open>reverse=True\<close>
  keeps the order of equal keys). Otherwise a comparison may raise; the exception is
  swallowed and CPython leaves the list in an order it does not specify: the model
  returns the fetch order there, and no theorem below depends on it.
\<close>

definition published_key :: "json \<Rightarrow> string option" where
  "published_key article =
     (case py_get article ''published_at'' (JStr []) of
        Inr (JStr t) \<Rightarrow> Some t
      | _ \<Rightarrow> None)"

definition key_text :: "json \<Rightarrow> string" where
  "key_text article = (case published_key article of Some t \<Rightarrow> t | None \<Rightarrow> [])"

definition sort_newest_first :: "json list \<Rightarrow> json list" where
  "sort_newest_first all_news =
     (if list_all (\<lambda>a. published_key a \<noteq> None) all_news
      then rev (sort_key key_text (rev all_news))
      else all_news)"

definition is_btc :: "pylib \<Rightarrow> string option \<Rightarrow> bool" where
  "is_btc lib symbol =
     (case symbol of
        None \<Rightarrow> False
      | Some ticker \<Rightarrow> ticker \<noteq> [] \<and> py_upper lib ticker = ''BTC'')"

definition get_all_crypto_news ::
  "pylib \<Rightarrow> news_world \<Rightarrow> string option \<Rightarrow> string option \<Rightarrow> int \<Rightarrow> int
     \<Rightarrow> py_error + json list" where
  "get_all_crypto_news lib w cryptopanic_key symbol hours max_per_source =
     bnd (if key_set cryptopanic_key
          then get_cryptopanic_news lib w cryptopanic_key symbol ''hot'' max_per_source
          else Inr [])
       (\<lambda>cryptopanic_news.
          Inr (sort_newest_first
                 (cryptopanic_news
                  @ get_cointelegraph_news w max_per_source
                  @ get_decrypt_news w max_per_source
                  @ get_coindesk_news w max_per_source
                  @ get_theblock_news w max_per_source
                  @ (if is_btc lib symbol then get_bitcoinmagazine_news w max_per_source
                     else []))))"

text \<open>The number of sources \<^verbatim>\<open>get_all_crypto_news\<close> queries.\<close>

definition sources_queried :: "pylib \<Rightarrow> string option \<Rightarrow> string option \<Rightarrow> int" where
  "sources_queried lib cryptopanic_key symbol =
     (if key_set cryptopanic_key then 1 else 0) + 4 + (if is_btc lib symbol then 1 else 0)"

definition regulatory_keywords :: "string list" where
  "regulatory_keywords =
     [''sec'', ''regulation'', ''regulatory'', ''ban'', ''legal'', ''lawsuit'',
      ''compliance'', ''government'', ''legislation'', ''policy'', ''etf'',
      ''securities'', ''cftc'', ''congress'', ''senate'', ''court'']"

text \<open>\<^verbatim>\<open>x.lower()\<close>: only a string has the method.\<close>

fun py_lower_json :: "pylib \<Rightarrow> json \<Rightarrow> py_error + string" where
  "py_lower_json lib (JStr t) = Inr (py_lower lib t)"
| "py_lower_json lib v = Inl AttributeError"

definition is_regulatory :: "pylib \<Rightarrow> json \<Rightarrow> py_error + bool" where
  "is_regulatory lib article =
     bnd (py_get article ''title'' (JStr [])) (\<lambda>title.
     bnd (py_lower_json lib title) (\<lambda>title_lower.
     bnd (py_get article ''summary'' (JStr [])) (\<lambda>summary.
     bnd (py_lower_json lib summary) (\<lambda>summary_lower.
       Inr (list_ex (\<lambda>keyword. substring keyword title_lower \<or> substring keyword summary_lower)
              regulatory_keywords)))))"

text \<open>The filter loop of \<^verbatim>\<open>get_regulatory_news\<close>.\<close>

fun regulatory_filter :: "pylib \<Rightarrow> json list \<Rightarrow> py_error + json list" where
  "regulatory_filter lib [] = Inr []"
| "regulatory_filter lib (article # all_news) =
     bnd (is_regulatory lib article) (\<lambda>hit.
       bnd (regulatory_filter lib all_news) (\<lambda>regulatory_news.
         Inr (if hit then article # regulatory_news else regulatory_news)))"

definition get_regulatory_news ::
  "pylib \<Rightarrow> news_world \<Rightarrow> string option \<Rightarrow> int \<Rightarrow> py_error + json list" where
  "get_regulatory_news lib w cryptopanic_key hours =
     bnd (get_all_crypto_news lib w cryptopanic_key None hours 10) (regulatory_filter lib)"

text \<open>The text an article carries under a key (empty when absent).\<close>

definition article_text :: "json \<Rightarrow> string \<Rightarrow> string" where
  "article_text article k =
     (case py_get article k (JStr []) of Inr (JStr t) \<Rightarrow> t | _ \<Rightarrow> [])"

text \<open>An article whose title and summary, when present, are strings.\<close>

definition text_article :: "json \<Rightarrow> bool" where
  "text_article article =
     (case article of
        JObj kvs \<Rightarrow>
          (case map_of kvs ''title'' of None \<Rightarrow> True | Some (JStr t) \<Rightarrow> True | Some v \<Rightarrow> False)
          \<and> (case map_of kvs ''summary'' of None \<Rightarrow> True | Some (JStr t) \<Rightarrow> True | Some v \<Rightarrow> False)
      | _ \<Rightarrow> False)"


text \<open>A feed used in the examples: one source answers, with two entries, newest first.\<close>

definition entry_wed :: json where
  "entry_wed = JObj [(''title'', JStr ''SEC sues exchange''), (''link'', JStr ''https://example.org/a''),
      (''published'', JStr ''Wed, 06 Nov 2024 10:00:00 +0000''), (''summary'', JStr ''A filing'')]"

definition entry_thu :: json where
  "entry_thu = JObj [(''title'', JStr ''Price update''), (''link'', JStr ''https://example.org/b''),
      (''published'', JStr ''Thu, 07 Nov 2024 10:00:00 +0000''), (''summary'', JStr ''Markets calm'')]"

definition feed_world :: news_world where
  "feed_world = \<lparr>news_api = (\<lambda>url ps. RequestException),
      feed_entries = (\<lambda>url. if url = ''https://cointelegraph.com/rss''
                            then Some [entry_thu, entry_wed] else None)\<rparr>"

definition article_wed :: json where
  "article_wed = JObj [(''title'', JStr ''SEC sues exchange''), (''url'', JStr ''https://example.org/a''),
      (''source'', JStr ''CoinTelegraph''),
      (''published_at'', JStr ''Wed, 06 Nov 2024 10:00:00 +0000''), (''summary'', JStr ''A filing'')]"

definition article_thu :: json where
  "article_thu = JObj [(''title'', JStr ''Price update''), (''url'', JStr ''https://example.org/b''),
      (''source'', JStr ''CoinTelegraph''),
      (''published_at'', JStr ''Thu, 07 Nov 2024 10:00:00 +0000''), (''summary'', JStr ''Markets calm'')]"


section \<open>Properties\<close>

subsection \<open>Letter case\<close>

lemma upper_char_idem: "upper_char (upper_char c) = upper_char c"
  by (cases c) (simp add: upper_char_def less_eq_char_def)

lemma upper_lower_char: "upper_char (lower_char c) = upper_char c"
  by (cases c) (auto simp add: upper_char_def lower_char_def less_eq_char_def)

lemma lower_upper_char: "lower_char (upper_char c) = lower_char c"
  by (cases c) (auto simp add: upper_char_def lower_char_def less_eq_char_def)

lemma upper_char_ascii: "upper_char c < CHR 0x80 \<longleftrightarrow> c < CHR 0x80"
  by (cases c) (auto simp: upper_char_def less_eq_char_def less_char_def)

lemma lower_char_ascii: "lower_char c < CHR 0x80 \<longleftrightarrow> c < CHR 0x80"
  by (cases c) (auto simp: lower_char_def less_eq_char_def less_char_def)

lemma is_ascii_upper: "is_ascii (ascii_upper s) = is_ascii s"
  by (simp add: is_ascii_def ascii_upper_def list_all_iff upper_char_ascii)

lemma is_ascii_lower: "is_ascii (ascii_lower s) = is_ascii s"
  by (simp add: is_ascii_def ascii_lower_def list_all_iff lower_char_ascii)

lemma seq_len_ascii: "c < CHR 0x80 \<Longrightarrow> seq_len c = 1"
  by (simp add: seq_len_def less_char_def)

lemma code_points_ascii: "is_ascii s \<Longrightarrow> code_points s = map (\<lambda>c. [c]) s"
  by (induction s) (simp_all add: is_ascii_def seq_len_ascii)

lemma lower_from_singles:
  "lower_from lib before (map (\<lambda>c. [c]) s @ qs)
     = map lower_char s @ lower_from lib (before @ s) qs"
  by (induction s arbitrary: before) (auto simp: lower_cp_def)

lemma py_upper_ascii: "is_ascii s \<Longrightarrow> py_upper lib s = ascii_upper s"
  by (simp add: py_upper_def code_points_ascii ascii_upper_def upper_cp_def
      concat_map_singleton comp_def)

lemma py_lower_ascii: "is_ascii s \<Longrightarrow> py_lower lib s = ascii_lower s"
  using lower_from_singles [of lib "[]" s "[]"]
  by (simp add: py_lower_def code_points_ascii ascii_lower_def)

lemma ascii_case_laws:
  "ascii_upper (ascii_upper s) = ascii_upper s"
  "ascii_upper (ascii_lower s) = ascii_upper s"
  "ascii_lower (ascii_upper s) = ascii_lower s"
  by (simp_all add: ascii_upper_def ascii_lower_def upper_char_idem upper_lower_char
      lower_upper_char)

lemma py_case_laws:
  assumes "is_ascii t"
  shows "py_upper lib (py_upper lib t) = py_upper lib t"
    and "py_upper lib (py_lower lib t) = py_upper lib t"
    and "py_lower lib (py_upper lib t) = py_lower lib t"
  using assms
  by (simp_all add: py_upper_ascii py_lower_ascii is_ascii_upper is_ascii_lower ascii_case_laws)

lemma case_examples:
  "py_upper lib ''pepe'' = ''PEPE''" "py_lower lib ''PEPE'' = ''pepe''"
  "py_upper lib ''Doge'' = ''DOGE''" "py_upper lib ''DOGE'' = ''DOGE''"
  "py_upper lib ''xYz'' = ''XYZ''" "py_lower lib ''xYz'' = ''xyz''" "py_lower lib ''XYZ'' = ''xyz''"
  "py_upper lib ''XYZ'' = ''XYZ''" "py_upper lib ''xyz'' = ''XYZ''"
  "py_upper lib ''BTC'' = ''BTC''" "py_upper lib ''PEPE'' = ''PEPE''"
  by (simp_all add: py_upper_ascii py_lower_ascii is_ascii_def less_char_def
      ascii_upper_def ascii_lower_def upper_char_def lower_char_def less_eq_char_def)

lemma sharp_s_cases:
  "py_upper lib sharp_s = ''SS''" "py_lower lib sharp_s = sharp_s"
  "py_upper lib capital_sharp_s = capital_sharp_s" "py_lower lib capital_sharp_s = sharp_s"
  "py_lower lib ''SS'' = ''ss''" "py_upper lib ''SS'' = ''SS''"
  by (simp_all add: py_upper_def py_lower_def sharp_s_def capital_sharp_s_def long_s_def
      seq_len_def is_cont_def upper_cp_def lower_cp_def less_char_def less_eq_char_def
      upper_char_def lower_char_def)

subsection \<open>The candle horizon\<close>

lemma days_param_unfold:
  "days_param d =
     Inr (let k = (\<lambda>x. \<bar>x - d\<bar>);
              b1 = (if k 7 < k 1 then 7 else 1);
              b2 = (if k 14 < k b1 then 14 else b1);
              b3 = (if k 30 < k b2 then 30 else b2);
              b4 = (if k 90 < k b3 then 90 else b3);
              b5 = (if k 180 < k b4 then 180 else b4)
          in (if k 365 < k b5 then 365 else b5))"
  by (simp only: days_param_def valid_days_def py_min_key.simps fold_simps Let_def)

lemma days_ranges:
  fixes d :: int
  obtains "d \<le> 4" | "4 < d" "d \<le> 10" | "10 < d" "d \<le> 22" | "22 < d" "d \<le> 60"
    | "60 < d" "d \<le> 135" | "135 < d" "d \<le> 272" | "272 < d"
  by linarith

lemma days_param_eq:
  "days_param d = Inr (if d \<le> 4 then 1 else if d \<le> 10 then 7 else if d \<le> 22 then 14
      else if d \<le> 60 then 30 else if d \<le> 135 then 90 else if d \<le> 272 then 180 else 365)"
proof (cases d rule: days_ranges)
  case 1 then show ?thesis unfolding days_param_unfold Let_def by (simp add: abs_if)
next
  case 2 then show ?thesis unfolding days_param_unfold Let_def by (simp add: abs_if)
next
  case 3 then show ?thesis unfolding days_param_unfold Let_def by (simp add: abs_if)
next
  case 4 then show ?thesis unfolding days_param_unfold Let_def by (simp add: abs_if)
next
  case 5 then show ?thesis unfolding days_param_unfold Let_def by (simp add: abs_if)
next
  case 6 then show ?thesis unfolding days_param_unfold Let_def by (simp add: abs_if)
next
  case 7 then show ?thesis unfolding days_param_unfold Let_def by (simp add: abs_if)
qed


lemma requests_cg_rate_limit: "requests (cg_rate_limit w s) = requests s"
  by (simp add: cg_rate_limit_def Let_def)

lemma cg_make_request_log:
  "requests (snd (cg_make_request w e ps s)) = requests s @ [(e, ps)]"
  by (simp add: cg_make_request_def Let_def requests_cg_rate_limit split: http_result.splits)

lemma cg_make_request_data:
  "fst (cg_make_request w e ps s) =
     (case cg_api w e ps of RequestException \<Rightarrow> JObj [] | Response d \<Rightarrow> d)"
  by (simp add: cg_make_request_def Let_def split: http_result.splits)




lemma btc_resolves:
  "get_coin_id lib w ''BTC'' s = (Inr (JStr ''bitcoin''), s)"
  by (simp add: get_coin_id_def case_examples SYMBOL_TO_ID_def)



subsection \<open>Symbol resolution\<close>

lemma get_coin_id_hit:
  "map_of SYMBOL_TO_ID (py_upper lib t) = Some cid \<Longrightarrow>
   get_coin_id lib w t s = (Inr (JStr cid), s)"
  by (simp add: get_coin_id_def)

lemma get_coin_id_miss:
  "map_of SYMBOL_TO_ID (py_upper lib t) = None \<Longrightarrow>
   get_coin_id lib w t s =
     (let r = cg_make_request w ''/search'' [(''query'', JStr (py_upper lib t))] s
      in (bnd (has_coins (fst r)) (\<lambda>found.
            if found then first_coin_id (fst r)
            else Inr (JStr (py_lower lib (py_upper lib t)))), snd r))"
  by (simp add: get_coin_id_def Let_def case_prod_beta cong: if_cong)

lemma get_coin_id_miss_log:
  "map_of SYMBOL_TO_ID (py_upper lib t) = None \<Longrightarrow>
   requests (snd (get_coin_id lib w t s))
     = requests s @ [(''/search'', [(''query'', JStr (py_upper lib t))])]"
  by (simp add: get_coin_id_miss Let_def cg_make_request_log)


lemma get_coin_id_no_match:
  assumes miss: "map_of SYMBOL_TO_ID (py_upper lib t) = None"
    and nores: "cg_api w ''/search'' [(''query'', JStr (py_upper lib t))] = RequestException
           \<or> (\<exists>d. cg_api w ''/search'' [(''query'', JStr (py_upper lib t))] = Response d
                \<and> (\<not> truthy d
                    \<or> (\<exists>kvs. d = JObj kvs
                         \<and> (map_of kvs ''coins'' = None \<or> map_of kvs ''coins'' = Some (JArr [])))))"
  shows "fst (get_coin_id lib w t s) = Inr (JStr (py_lower lib (py_upper lib t)))"
proof -
  have "has_coins (fst (cg_make_request w ''/search'' [(''query'', JStr (py_upper lib t))] s))
          = Inr False"
    using nores
    by (auto simp add: cg_make_request_data has_coins_def bnd_def map_of_eq_None_iff)
  with miss show ?thesis
    by (simp add: get_coin_id_miss Let_def bnd_def)
qed

lemma sharp_s_unmapped: "map_of SYMBOL_TO_ID ''SS'' = None"
  by (simp add: SYMBOL_TO_ID_def)

lemma capital_sharp_s_unmapped: "map_of SYMBOL_TO_ID capital_sharp_s = None"
  by (simp add: SYMBOL_TO_ID_def capital_sharp_s_def)

lemma sharp_s_lower: "sharp_s \<noteq> ''ss''"
  by (simp add: sharp_s_def)

lemma search_world_fails:
  "q \<noteq> ''PEPE'' \<Longrightarrow> cg_api search_world ''/search'' [(''query'', JStr q)] = RequestException"
  by (simp add: search_world_def)




text \<open>
  C10 (as amended). For a ticker of ASCII characters symbol resolution does not depend on
  the letter case: resolving the uppercased or the lowercased ticker gives the same
  result, and the same client state, as resolving the ticker itself. The table is
  looked up at the uppercased ticker, a search, when there is one, asks for the
  uppercased ticker, and the fallback after a failed search is the lowercased ticker.
\<close>

theorem get_coin_id_case_insensitive:
  "is_ascii t \<longrightarrow>
     get_coin_id lib w (py_upper lib t) s = get_coin_id lib w t s
     \<and> get_coin_id lib w (py_lower lib t) s = get_coin_id lib w t s
     \<and> (\<forall>cid. map_of SYMBOL_TO_ID (py_upper lib t) = Some cid \<longrightarrow>
           get_coin_id lib w t s = (Inr (JStr cid), s))
     \<and> (map_of SYMBOL_TO_ID (py_upper lib t) = None \<longrightarrow>
           requests (snd (get_coin_id lib w t s))
             = requests s @ [(''/search'', [(''query'', JStr (py_upper lib t))])]
           \<and> (cg_api w ''/search'' [(''query'', JStr (py_upper lib t))] = RequestException \<longrightarrow>
                fst (get_coin_id lib w t s) = Inr (JStr (py_lower lib t))))"
proof (intro impI conjI allI)
  assume a: "is_ascii t"
  show "get_coin_id lib w (py_upper lib t) s = get_coin_id lib w t s"
    by (simp add: get_coin_id_def py_case_laws [OF a])
  show "get_coin_id lib w (py_lower lib t) s = get_coin_id lib w t s"
    by (simp add: get_coin_id_def py_case_laws [OF a])
next
  fix cid
  assume "map_of SYMBOL_TO_ID (py_upper lib t) = Some cid"
  then show "get_coin_id lib w t s = (Inr (JStr cid), s)"
    by (rule get_coin_id_hit)
next
  assume "map_of SYMBOL_TO_ID (py_upper lib t) = None"
  then show "requests (snd (get_coin_id lib w t s))
             = requests s @ [(''/search'', [(''query'', JStr (py_upper lib t))])]"
    by (rule get_coin_id_miss_log)
next
  assume a: "is_ascii t" and m: "map_of SYMBOL_TO_ID (py_upper lib t) = None"
    and f: "cg_api w ''/search'' [(''query'', JStr (py_upper lib t))] = RequestException"
  from get_coin_id_no_match [OF m, of w s] f
  show "fst (get_coin_id lib w t s) = Inr (JStr (py_lower lib t))"
    by (simp add: py_case_laws [OF a])
qed

theorem get_coin_id_case_insensitive_witness:
  "is_ascii ''xYz''
   \<and> get_coin_id plain_lib search_world ''XYZ'' (cg_init 100)
       = get_coin_id plain_lib search_world ''xYz'' (cg_init 100)
   \<and> get_coin_id plain_lib search_world ''xyz'' (cg_init 100)
       = get_coin_id plain_lib search_world ''xYz'' (cg_init 100)
   \<and> requests (snd (get_coin_id plain_lib search_world ''xYz'' (cg_init 100)))
       = [(''/search'', [(''query'', JStr ''XYZ'')])]
   \<and> fst (get_coin_id plain_lib search_world ''xYz'' (cg_init 100)) = Inr (JStr ''xyz'')"
  using get_coin_id_case_insensitive [of "''xYz''" plain_lib search_world "cg_init 100"]
  by (simp add: case_examples SYMBOL_TO_ID_def search_world_def cg_init_def is_ascii_def
      less_char_def)
text \<open>
  Without the restriction to ASCII the statement fails at the capital form of \<^verbatim>\<open>"\<ss>"\<close>
  (U+1E9E): the uppercase form of that ticker is the ticker itself and resolves, by the
  fallback, to its lowercase form \<^verbatim>\<open>"\<ss>"\<close> (U+00DF); the lowercased ticker \<^verbatim>\<open>"\<ss>"\<close>
  has the uppercase form \<^verbatim>\<open>"SS"\<close> and resolves to \<^verbatim>\<open>"ss"\<close>.
\<close>

theorem get_coin_id_case_counterexample:
  "fst (get_coin_id plain_lib search_world capital_sharp_s (cg_init 100)) = Inr (JStr sharp_s)
   \<and> py_lower plain_lib capital_sharp_s = sharp_s
   \<and> fst (get_coin_id plain_lib search_world (py_lower plain_lib capital_sharp_s) (cg_init 100))
       = Inr (JStr ''ss'')
   \<and> sharp_s \<noteq> ''ss''"
proof -
  have m1: "map_of SYMBOL_TO_ID (py_upper plain_lib capital_sharp_s) = None"
    unfolding sharp_s_cases by (rule capital_sharp_s_unmapped)
  have f1: "cg_api search_world ''/search''
      [(''query'', JStr (py_upper plain_lib capital_sharp_s))] = RequestException"
    unfolding sharp_s_cases by (simp add: search_world_fails capital_sharp_s_def)
  have a: "fst (get_coin_id plain_lib search_world capital_sharp_s (cg_init 100))
      = Inr (JStr sharp_s)"
    using get_coin_id_no_match [OF m1, of search_world "cg_init 100"] f1
    by (simp add: sharp_s_cases)
  have m2: "map_of SYMBOL_TO_ID (py_upper plain_lib sharp_s) = None"
    by (simp add: sharp_s_cases sharp_s_unmapped)
  have f2: "cg_api search_world ''/search'' [(''query'', JStr (py_upper plain_lib sharp_s))]
      = RequestException"
    by (simp add: search_world_fails sharp_s_cases)
  have b: "fst (get_coin_id plain_lib search_world sharp_s (cg_init 100)) = Inr (JStr ''ss'')"
    using get_coin_id_no_match [OF m2, of search_world "cg_init 100"] f2
    by (simp add: sharp_s_cases)
  show ?thesis using a b by (simp add: sharp_s_cases sharp_s_lower)
qed

subsection \<open>Request pacing\<close>

lemma onchain_make_request_payload:
  "fst (onchain_make_request w url ps api_name oversleep s) = oc_make_request w url ps"
  by (simp add: onchain_make_request_def oc_make_request_def Let_def split: http_result.splits)

lemma cryptonews_make_request_payload:
  "fst (cryptonews_make_request w url ps source oversleep s) = news_make_request w url ps"
  by (simp add: cryptonews_make_request_def news_make_request_def Let_def
      split: http_result.splits)




lemma rss_fetch_entries:
  "fst (rss_fetch w url source oversleep s) = feed_entries w url"
  by (simp add: rss_fetch_def)














subsection \<open>Lowercasing keeps ASCII text in place\<close>

lemma not_cont_ascii: "c < CHR 0x80 \<Longrightarrow> \<not> is_cont c"
  by (simp add: is_cont_def less_char_def less_eq_char_def)

lemma takeWhile_stop: "\<not> P c \<Longrightarrow> takeWhile P (a @ c # b) = takeWhile P a"
  by (induction a) auto

lemma code_points_ascii_mid:
  "c < CHR 0x80 \<Longrightarrow> code_points (a @ c # b) = code_points a @ [c] # code_points b"
proof (induction a rule: code_points.induct)
  case 1
  then show ?case by (simp add: seq_len_ascii)
next
  case (2 x xs)
  let ?tail = "take (seq_len x - 1) (takeWhile is_cont xs)"
  have t: "takeWhile is_cont (xs @ c # b) = takeWhile is_cont xs"
    using 2(2) by (simp add: takeWhile_stop not_cont_ascii)
  have le: "length ?tail \<le> length xs"
    by (simp add: min.coboundedI1 length_takeWhile_le)
  show ?case
    using 2 le by (simp add: t del: length_take)
qed

lemma code_points_ascii_prefix:
  "is_ascii u \<Longrightarrow> code_points (u @ b) = map (\<lambda>c. [c]) u @ code_points b"
  by (induction u) (simp_all add: is_ascii_def seq_len_ascii)

lemma code_points_ascii_run:
  assumes "is_ascii u" "u \<noteq> []"
  shows "code_points (a @ u @ b) = code_points a @ map (\<lambda>c. [c]) u @ code_points b"
proof -
  from assms obtain c u' where u: "u = c # u'" and c: "c < CHR 0x80" and u': "is_ascii u'"
    by (cases u) (auto simp: is_ascii_def)
  have "code_points (a @ u @ b) = code_points (a @ c # (u' @ b))" by (simp add: u)
  also have "\<dots> = code_points a @ [c] # code_points (u' @ b)"
    by (rule code_points_ascii_mid [OF c])
  finally show ?thesis by (simp add: u code_points_ascii_prefix [OF u'])
qed

lemma lower_from_append:
  "\<exists>p. lower_from lib before (xs @ ys) = p @ lower_from lib (before @ concat xs) ys"
proof (induction xs arbitrary: before)
  case Nil
  then show ?case by simp
next
  case (Cons q xs)
  from Cons [of "before @ q"] obtain p where
    "lower_from lib (before @ q) (xs @ ys) = p @ lower_from lib ((before @ q) @ concat xs) ys"
    by blast
  then have "lower_from lib before ((q # xs) @ ys)
      = (lower_cp lib before q (concat (xs @ ys)) @ p) @ lower_from lib (before @ concat (q # xs)) ys"
    by simp
  then show ?case by blast
qed

lemma py_lower_keeps_ascii_run:
  assumes "is_ascii u" "u \<noteq> []"
  shows "\<exists>p r. py_lower lib (a @ u @ b) = p @ ascii_lower u @ r"
proof -
  have "py_lower lib (a @ u @ b)
      = lower_from lib [] (code_points a @ (map (\<lambda>c. [c]) u @ code_points b))"
    by (simp add: py_lower_def code_points_ascii_run [OF assms])
  moreover obtain p where "lower_from lib [] (code_points a @ (map (\<lambda>c. [c]) u @ code_points b))
      = p @ lower_from lib ([] @ concat (code_points a)) (map (\<lambda>c. [c]) u @ code_points b)"
    using lower_from_append by blast
  ultimately have "py_lower lib (a @ u @ b)
      = p @ ascii_lower u @ lower_from lib (([] @ concat (code_points a)) @ u) (code_points b)"
    by (simp only: lower_from_singles ascii_lower_def)
  then show ?thesis by blast
qed


subsection \<open>News aggregation and the regulatory filter\<close>

lemma is_prefix_iff: "is_prefix u t \<longleftrightarrow> (\<exists>b. t = u @ b)"
  by (induction u t rule: is_prefix.induct) auto

lemma substring_iff: "substring u t \<longleftrightarrow> (\<exists>a b. t = a @ u @ b)"
proof (induction t)
  case Nil
  then show ?case by auto
next
  case (Cons c cs)
  show ?case
  proof
    assume "substring u (c # cs)"
    then consider "is_prefix u (c # cs)" | "substring u cs" by auto
    then show "\<exists>a b. c # cs = a @ u @ b"
    proof cases
      case 1
      then obtain b where "c # cs = u @ b" by (auto simp: is_prefix_iff)
      then have "c # cs = [] @ u @ b" by simp
      then show ?thesis by blast
    next
      case 2
      with Cons obtain a b where "cs = a @ u @ b" by auto
      then have "c # cs = (c # a) @ u @ b" by simp
      then show ?thesis by blast
    qed
  next
    assume "\<exists>a b. c # cs = a @ u @ b"
    then obtain a b where ab: "c # cs = a @ u @ b" by blast
    show "substring u (c # cs)"
    proof (cases a)
      case Nil
      with ab have "is_prefix u (c # cs)" by (auto simp: is_prefix_iff)
      then show ?thesis by simp
    next
      case (Cons x a')
      with ab have "cs = a' @ u @ b" by simp
      with Cons.IH have "substring u cs" by blast
      then show ?thesis by simp
    qed
  qed
qed

lemma substring_map: "substring u t \<Longrightarrow> substring (map f u) (map f t)"
  unfolding substring_iff by (metis map_append)

lemma mapM_res_length: "mapM_res f xs = Inr ys \<Longrightarrow> length ys = length xs"
  by (induction xs arbitrary: ys) (auto simp: bnd_def split: sum.splits)

lemma py_slice_to_length: "0 \<le> n \<Longrightarrow> int (length (py_slice_to xs n)) \<le> n"
  by (simp add: py_slice_to_def)

lemma rss_news_length: "0 \<le> n \<Longrightarrow> int (length (rss_news w url src n)) \<le> n"
  using py_slice_to_length [of n]
  by (auto simp: rss_news_def split: option.splits sum.splits dest!: mapM_res_length)

lemma py_slice_json_length:
  "0 \<le> n \<Longrightarrow> py_slice_json v n = Inr xs \<Longrightarrow> int (length xs) \<le> n"
  by (cases v) (auto simp: py_slice_to_length)

lemma get_cryptopanic_news_length:
  assumes "0 \<le> n" "get_cryptopanic_news lib w k sy ft n = Inr xs"
  shows "int (length xs) \<le> n"
  using assms
  by (auto simp: get_cryptopanic_news_def Let_def bnd_def
      split: option.splits if_splits sum.splits
      dest!: mapM_res_length py_slice_json_length)

lemma sort_newest_first_length: "length (sort_newest_first xs) = length xs"
  by (simp add: sort_newest_first_def)

lemma sort_newest_first_keys:
  "list_all (\<lambda>a. published_key a \<noteq> None) (sort_newest_first xs)
   \<longleftrightarrow> list_all (\<lambda>a. published_key a \<noteq> None) xs"
  by (auto simp: sort_newest_first_def list_all_iff)

lemma sort_newest_first_sorted:
  "list_all (\<lambda>a. published_key a \<noteq> None) xs \<Longrightarrow> sorted (rev (map key_text (sort_newest_first xs)))"
  by (simp add: sort_newest_first_def rev_map)

text \<open>
  What the aggregation does guarantee, for \<open>max_per_source \<ge> 0\<close>: at most (number of
  sources queried) times \<open>max_per_source\<close> articles; an order that is non-increasing
  in the text of \<^verbatim>\<open>published_at\<close>, compared as a string, when each one is a string;
  and no failure but that of the credentialed fetch.
\<close>

lemma aggregation_bound_and_text_order:
  "0 \<le> m \<longrightarrow>
     (get_all_crypto_news lib w k sy hours m = Inr news \<longrightarrow>
        int (length news) \<le> sources_queried lib k sy * m
        \<and> (list_all (\<lambda>a. published_key a \<noteq> None) news \<longrightarrow> sorted (rev (map key_text news))))
     \<and> (\<forall>e. get_all_crypto_news lib w k sy hours m = Inl e \<longrightarrow>
            key_set k \<and> get_cryptopanic_news lib w k sy ''hot'' m = Inl e)
     \<and> (\<not> key_set k \<longrightarrow> (\<exists>news. get_all_crypto_news lib w k sy hours m = Inr news))"
proof (intro impI conjI allI)
  assume m: "0 \<le> m" and r: "get_all_crypto_news lib w k sy hours m = Inr news"
  obtain cp where cp: "(if key_set k then get_cryptopanic_news lib w k sy ''hot'' m else Inr []) = Inr cp"
    and news: "news = sort_newest_first (cp @ get_cointelegraph_news w m @ get_decrypt_news w m
        @ get_coindesk_news w m @ get_theblock_news w m
        @ (if is_btc lib sy then get_bitcoinmagazine_news w m else []))"
    using r by (auto simp: get_all_crypto_news_def bnd_def split: sum.splits)
  have lcp: "int (length cp) \<le> (if key_set k then 1 else 0) * m"
    using cp m get_cryptopanic_news_length [of m lib w k sy "''hot''" cp]
    by (auto split: if_splits)
  have l4: "int (length (get_cointelegraph_news w m)) \<le> m" "int (length (get_decrypt_news w m)) \<le> m"
    "int (length (get_coindesk_news w m)) \<le> m" "int (length (get_theblock_news w m)) \<le> m"
    "int (length (get_bitcoinmagazine_news w m)) \<le> m"
    using m by (simp_all add: get_cointelegraph_news_def get_decrypt_news_def get_coindesk_news_def
        get_theblock_news_def get_bitcoinmagazine_news_def rss_news_length)
  show "int (length news) \<le> sources_queried lib k sy * m"
    using lcp l4 m
    by (cases "key_set k"; cases "is_btc lib sy")
      (simp_all add: news sort_newest_first_length sources_queried_def)
  assume "list_all (\<lambda>a. published_key a \<noteq> None) news"
  then show "sorted (rev (map key_text news))"
    unfolding news sort_newest_first_keys by (rule sort_newest_first_sorted)
next
  fix e
  assume "get_all_crypto_news lib w k sy hours m = Inl e"
  then show "key_set k" "get_cryptopanic_news lib w k sy ''hot'' m = Inl e"
    by (auto simp: get_all_crypto_news_def bnd_def split: sum.splits if_splits)
next
  assume "\<not> key_set k"
  then show "\<exists>news. get_all_crypto_news lib w k sy hours m = Inr news"
    by (simp add: get_all_crypto_news_def bnd_def)
qed

lemma feed_world_five:
  "get_all_crypto_news lib feed_world None None 24 5 = Inr [article_wed, article_thu]"
  by (simp add: get_all_crypto_news_def key_set_def is_btc_def bnd_def
      get_cointelegraph_news_def get_decrypt_news_def get_coindesk_news_def get_theblock_news_def
      rss_news_def feed_world_def py_slice_to_def rss_article_def entry_wed_def entry_thu_def
      article_wed_def article_thu_def sort_newest_first_def published_key_def key_text_def)

text \<open>
  C5. The aggregation is documented to return the articles \<^verbatim>\<open>sorted by date\<close>, and the
  sort is commented \<^verbatim>\<open>Sort by date (newest first)\<close>; the order it produces is that of
  the publication texts. One feed delivers two entries, the one of Thursday 7 November
  2024 before the one of Wednesday 6 November 2024; no credential is configured,
  \<open>max_per_source\<close> is the default 5. The aggregation returns the article of Wednesday
  before the article of Thursday, the older before the newer.
\<close>

theorem news_sorted_by_text:
  "feed_entries feed_world ''https://cointelegraph.com/rss'' = Some [entry_thu, entry_wed]
   \<and> get_all_crypto_news lib feed_world None None 24 5 = Inr [article_wed, article_thu]
   \<and> py_getitem article_wed ''published_at'' = Inr (JStr ''Wed, 06 Nov 2024 10:00:00 +0000'')
   \<and> py_getitem article_thu ''published_at'' = Inr (JStr ''Thu, 07 Nov 2024 10:00:00 +0000'')"
  by (simp add: feed_world_five) (simp add: feed_world_def article_wed_def article_thu_def)

lemma regulatory_filter_eq:
  "regulatory_filter lib xs = Inr out \<Longrightarrow>
     out = filter (\<lambda>a. is_regulatory lib a = Inr True) xs \<and> (\<forall>a \<in> set xs. \<exists>b. is_regulatory lib a = Inr b)"
  by (induction xs arbitrary: out) (auto simp: bnd_def split: sum.splits if_splits)

lemma ascii_lower_SEC: "ascii_upper u = ''SEC'' \<Longrightarrow> ascii_lower u = ''sec''"
proof -
  assume "ascii_upper u = ''SEC''"
  then have "ascii_lower (ascii_upper u) = ascii_lower ''SEC''" by simp
  then show ?thesis
    by (simp add: ascii_case_laws) (simp add: ascii_lower_def lower_char_def less_eq_char_def)
qed

lemma is_ascii_SEC: "ascii_upper u = ''SEC'' \<Longrightarrow> is_ascii u \<and> u \<noteq> []"
proof -
  assume a: "ascii_upper u = ''SEC''"
  have "is_ascii ''SEC''" by (simp add: is_ascii_def less_char_def)
  with a have "is_ascii (ascii_upper u)" by simp
  then have "is_ascii u" by (simp add: is_ascii_upper)
  moreover from a have "u \<noteq> []" by (auto simp: ascii_upper_def)
  ultimately show ?thesis by simp
qed

lemma lower_keeps_SEC:
  assumes "substring u t" "ascii_upper u = ''SEC''"
  shows "substring ''sec'' (py_lower lib t)"
proof -
  from assms(1) obtain a b where t: "t = a @ u @ b" by (auto simp: substring_iff)
  from is_ascii_SEC [OF assms(2)] have "is_ascii u" "u \<noteq> []" by simp_all
  from py_lower_keeps_ascii_run [OF this, of lib a b] obtain p r where
    "py_lower lib (a @ u @ b) = p @ ascii_lower u @ r" by blast
  then have "py_lower lib t = p @ ''sec'' @ r"
    by (simp only: t ascii_lower_SEC [OF assms(2)])
  then show ?thesis unfolding substring_iff by blast
qed

lemma is_regulatory_title:
  assumes "is_regulatory lib a = Inr b" "py_getitem a ''title'' = Inr (JStr t)"
    "substring u t" "ascii_upper u = ''SEC''"
  shows "b"
proof -
  from assms(2) obtain kvs where a: "a = JObj kvs" and t: "map_of kvs ''title'' = Some (JStr t)"
    by (cases a) (auto split: option.splits)
  have "substring ''sec'' (py_lower lib t)"
    using assms(3,4) by (rule lower_keeps_SEC)
  with assms(1) a t show ?thesis
    by (auto simp: is_regulatory_def bnd_def regulatory_keywords_def split: sum.splits)
qed

lemma is_regulatory_text:
  "is_regulatory lib a = Inr b \<Longrightarrow>
   b = list_ex (\<lambda>k. substring k (py_lower lib (article_text a ''title''))
                  \<or> substring k (py_lower lib (article_text a ''summary''))) regulatory_keywords"
proof (cases a)
  case (JObj kvs)
  assume r: "is_regulatory lib a = Inr b"
  obtain tv where tv: "py_get a ''title'' (JStr []) = Inr tv" by (simp add: JObj)
  obtain sv where sv: "py_get a ''summary'' (JStr []) = Inr sv" by (simp add: JObj)
  from r tv obtain t where t: "tv = JStr t"
    by (cases tv) (auto simp: is_regulatory_def bnd_def)
  from r tv sv t obtain sm where sm: "sv = JStr sm"
    by (cases sv) (auto simp: is_regulatory_def bnd_def)
  from r tv sv t sm show ?thesis
    by (auto simp: is_regulatory_def bnd_def article_text_def)
qed (auto simp: is_regulatory_def bnd_def)

lemma text_article_is_regulatory:
  "text_article a \<Longrightarrow> \<exists>b. is_regulatory lib a = Inr b"
  by (cases a)
    (auto simp: text_article_def is_regulatory_def bnd_def split: option.splits json.splits)

lemma regulatory_filter_total:
  "\<forall>a \<in> set xs. text_article a \<Longrightarrow> \<exists>out. regulatory_filter lib xs = Inr out"
proof (induction xs)
  case Nil
  then show ?case by simp
next
  case (Cons a xs)
  then obtain b out where "is_regulatory lib a = Inr b" "regulatory_filter lib xs = Inr out"
    using text_article_is_regulatory [of a lib] by auto
  then show ?case by (simp add: bnd_def)
qed

text \<open>
  C8. Whenever the regulatory filter returns: every article of the input whose title
  has a substring that reads \<open>SEC\<close> in any letter case (each of the three letters in
  its upper or its lower case) is in the output, and every
  article with none of the keywords in its lowercased title and summary is not. The
  filter returns for every list of articles whose titles and summaries are strings.
\<close>

theorem regulatory_filter_keywords:
  "(regulatory_filter lib articles = Inr out \<longrightarrow>
      (\<forall>a \<in> set articles. \<forall>t u.
          py_getitem a ''title'' = Inr (JStr t) \<and> substring u t \<and> ascii_upper u = ''SEC''
          \<longrightarrow> a \<in> set out)
      \<and> (\<forall>a \<in> set articles.
          (\<forall>k \<in> set regulatory_keywords.
              \<not> substring k (py_lower lib (article_text a ''title''))
              \<and> \<not> substring k (py_lower lib (article_text a ''summary'')))
          \<longrightarrow> a \<notin> set out))
   \<and> ((\<forall>a \<in> set articles. text_article a) \<longrightarrow> (\<exists>res. regulatory_filter lib articles = Inr res))"
proof (intro conjI impI ballI allI)
  fix a t u
  assume r: "regulatory_filter lib articles = Inr out" and a: "a \<in> set articles"
    and h: "py_getitem a ''title'' = Inr (JStr t) \<and> substring u t \<and> ascii_upper u = ''SEC''"
  from regulatory_filter_eq [OF r] a obtain b where b: "is_regulatory lib a = Inr b"
    and out: "out = filter (\<lambda>a. is_regulatory lib a = Inr True) articles" by blast
  from is_regulatory_title [OF b] h have b by blast
  with a b out show "a \<in> set out" by simp
next
  fix a
  assume r: "regulatory_filter lib articles = Inr out" and a: "a \<in> set articles"
    and h: "\<forall>k \<in> set regulatory_keywords.
              \<not> substring k (py_lower lib (article_text a ''title''))
              \<and> \<not> substring k (py_lower lib (article_text a ''summary''))"
  from regulatory_filter_eq [OF r] a obtain b where b: "is_regulatory lib a = Inr b"
    and out: "out = filter (\<lambda>a. is_regulatory lib a = Inr True) articles" by blast
  from is_regulatory_text [OF b] h have "\<not> b" by (auto simp: list_ex_iff)
  with b out show "a \<notin> set out" by auto
next
  assume "\<forall>a \<in> set articles. text_article a"
  then show "\<exists>res. regulatory_filter lib articles = Inr res" by (rule regulatory_filter_total)
qed

lemma example_texts_lower:
  "py_lower lib ''SEC sues exchange'' = ''sec sues exchange''"
  "py_lower lib ''A filing'' = ''a filing''"
  "py_lower lib ''Price update'' = ''price update''"
  "py_lower lib ''Markets calm'' = ''markets calm''"
  by (simp_all add: py_lower_ascii is_ascii_def less_char_def ascii_lower_def lower_char_def
      less_eq_char_def)

lemma regulatory_example:
  "regulatory_filter lib [article_wed, article_thu] = Inr [article_wed]"
  by (simp add: article_wed_def article_thu_def is_regulatory_def bnd_def regulatory_keywords_def
      example_texts_lower)

lemma article_thu_no_keyword:
  "\<forall>k \<in> set regulatory_keywords.
      \<not> substring k (py_lower lib (article_text article_thu ''title''))
      \<and> \<not> substring k (py_lower lib (article_text article_thu ''summary''))"
  by (simp add: article_thu_def article_text_def regulatory_keywords_def example_texts_lower)

theorem regulatory_filter_keywords_witness:
  "regulatory_filter plain_lib [article_wed, article_thu] = Inr [article_wed]
   \<and> py_getitem article_wed ''title'' = Inr (JStr ''SEC sues exchange'')
   \<and> substring ''SEC'' ''SEC sues exchange'' \<and> ascii_upper ''SEC'' = ''SEC''
   \<and> article_wed \<in> set [article_wed]
   \<and> article_thu \<notin> set [article_wed]
   \<and> text_article article_wed \<and> text_article article_thu"
proof -
  note T = regulatory_filter_keywords [of plain_lib "[article_wed, article_thu]" "[article_wed]"]
  have r: "regulatory_filter plain_lib [article_wed, article_thu] = Inr [article_wed]"
    by (rule regulatory_example)
  have title: "py_getitem article_wed ''title'' = Inr (JStr ''SEC sues exchange'')"
    by (simp add: article_wed_def)
  have sub: "substring ''SEC'' ''SEC sues exchange''" by simp
  have up: "ascii_upper ''SEC'' = ''SEC''"
    by (simp add: ascii_upper_def upper_char_def less_eq_char_def)
  have typed: "text_article article_wed" "text_article article_thu"
    by (simp_all add: article_wed_def article_thu_def text_article_def)
  from T r have "\<forall>a \<in> set [article_wed, article_thu].
          (\<forall>k \<in> set regulatory_keywords.
              \<not> substring k (py_lower plain_lib (article_text a ''title''))
              \<and> \<not> substring k (py_lower plain_lib (article_text a ''summary'')))
          \<longrightarrow> a \<notin> set [article_wed]"
    by blast
  with article_thu_no_keyword have out: "article_thu \<notin> set [article_wed]" by simp
  from r title sub up typed out show ?thesis by simp
qed

subsection \<open>Price history\<close>


text \<open>
  C3. The claim asks for volume zero on every row whose timestamp has no volume point.
  Here the candle fetch succeeds, the volume series has a point for the first candle
  and none for the second: the second row carries the missing value, not zero.
\<close>

theorem price_history_missing_volume:
  "fst (get_price_history lib history_world ''BTC'' 5 ''usd'' (cg_init 100)) =
     Inr (Frame [\<lparr>row_timestamp = 1000, row_open = JInt 10, row_high = JInt 12, row_low = JInt 9,
                   row_close = JInt 11, row_volume = Some (JInt 500)\<rparr>,
                 \<lparr>row_timestamp = 2000, row_open = JInt 11, row_high = JInt 13, row_low = JInt 10,
                   row_close = JInt 12, row_volume = None\<rparr>])"
  by (simp add: get_price_history_def btc_resolves days_param_eq
      cg_make_request_def history_world_def Let_def bnd_def merge_volume_def join_left_def)

subsection \<open>The global market summary\<close>

lemma dropWhile_keep: "xs \<noteq> [] \<Longrightarrow> \<not> P (hd xs) \<Longrightarrow> dropWhile P (xs @ ys) = xs @ ys"
  by (cases xs) auto

lemma strip_tail:
  assumes "t \<noteq> []" "\<not> is_space (hd t)" "\<not> is_space (last t)" "\<forall>c \<in> set ws. is_space c"
  shows "\<exists>pre. py_strip (a @ t @ ws) = pre @ t"
proof -
  obtain pre where pre: "dropWhile is_space (a @ t @ ws) = pre @ t @ ws"
  proof (cases "\<forall>c \<in> set a. is_space c")
    case True
    then have "dropWhile is_space (a @ t @ ws) = dropWhile is_space (t @ ws)"
      by (simp add: dropWhile_append)
    also have "\<dots> = [] @ t @ ws" using assms(1,2) by (simp add: dropWhile_keep)
    finally show ?thesis using that by blast
  next
    case False
    then have "dropWhile is_space (a @ t @ ws) = dropWhile is_space a @ t @ ws"
      by (auto simp add: dropWhile_append)
    then show ?thesis using that by blast
  qed
  have "dropWhile is_space (rev (pre @ t @ ws)) = dropWhile is_space (rev t @ rev pre)"
    using assms(4) by (simp add: dropWhile_append)
  also have "\<dots> = rev t @ rev pre"
    using assms(1,3) by (simp add: dropWhile_keep hd_rev)
  finally show ?thesis by (simp add: py_strip_def pre)
qed

lemma fstring_append:
  "fstring (ps @ qs) = bnd (fstring ps) (\<lambda>a. bnd (fstring qs) (\<lambda>b. Inr (a @ b)))"
  by (induction ps) (auto simp: fstring_def bnd_def split: sum.splits)

lemma global_summary_suffix:
  assumes "global_summary_text lib gd fear_greed_default = Inr text"
  shows "\<exists>pre. text = pre @ ''Fear & Greed Index: 50/100 (Neutral)''"
proof -
  let ?tail = "[Inr (NL @ NL @ ''Fear & Greed Index: ''),
        field lib fear_greed_default ''value'' [],
        Inr ''/100 ('',
        field lib fear_greed_default ''value_classification'' [],
        Inr ('')'' @ NL)]"
  let ?front = "[Inr (NL @ ''=== Global Crypto Market Overview ==='' @ NL @ NL @ ''Total Market Cap: $''),
        field lib gd ''total_market_cap_usd'' '',.0f'',
        Inr (NL @ ''24h Market Cap Change: ''),
        field lib gd ''market_cap_change_percentage_24h'' ''+.2f'',
        Inr (''%'' @ NL @ ''Total 24h Volume: $''),
        field lib gd ''total_volume_usd'' '',.0f'',
        Inr (NL @ NL @ ''Market Dominance:'' @ NL @ ''  Bitcoin: ''),
        field lib gd ''btc_dominance'' ''.2f'',
        Inr (''%'' @ NL @ ''  Ethereum: ''),
        field lib gd ''eth_dominance'' ''.2f'',
        Inr (''%'' @ NL @ NL @ ''Active Cryptocurrencies: ''),
        field lib gd ''active_cryptocurrencies'' '','',
        Inr (NL @ ''Active Markets: ''),
        field lib gd ''markets'' '','']"
  have tail: "fstring ?tail = Inr (NL @ NL @ ''Fear & Greed Index: 50/100 (Neutral)'' @ NL)"
    by (simp add: fstring_def bnd_def field_def fear_greed_default_def py_format_def
        py_str_int_def digits_of.simps)
  have "global_summary_text lib gd fear_greed_default =
      bnd (fstring (?front @ ?tail)) (\<lambda>summary. Inr (py_strip summary))"
    unfolding global_summary_text_def by simp
  with assms have "bnd (bnd (fstring ?front) (\<lambda>a. bnd (fstring ?tail) (\<lambda>b. Inr (a @ b))))
      (\<lambda>summary. Inr (py_strip summary)) = Inr text"
    by (simp only: fstring_append)
  with tail obtain a where
    "text = py_strip (a @ NL @ NL @ ''Fear & Greed Index: 50/100 (Neutral)'' @ NL)"
    by (cases "fstring ?front") (auto simp: bnd_def)
  then have "text = py_strip ((a @ NL @ NL) @ ''Fear & Greed Index: 50/100 (Neutral)'' @ NL)"
    by simp
  moreover have "\<exists>pre. py_strip ((a @ NL @ NL) @ ''Fear & Greed Index: 50/100 (Neutral)'' @ NL)
      = pre @ ''Fear & Greed Index: 50/100 (Neutral)''"
    by (rule strip_tail) (simp_all add: is_space_def NL_def)
  ultimately show ?thesis by simp
qed

lemma get_global_market_summary_fst:
  "fst (get_global_market_summary lib w s) =
     bnd (fst (get_global_market_data w s)) (\<lambda>global_data.
       if \<not> truthy global_data then Inr ''Could not fetch global market data''
       else global_summary_text lib global_data (get_fear_greed_index lib w))"
  by (simp add: get_global_market_summary_def Let_def bnd_def case_prod_beta split: sum.splits)

lemma get_global_market_data_failed:
  "cg_api w ''/global'' [] = RequestException \<Longrightarrow> fst (get_global_market_data w s) = Inr (JObj [])"
  by (simp add: get_global_market_data_def Let_def case_prod_beta cg_make_request_data)

lemma get_fear_greed_index_failed:
  "fng_api w = RequestException \<or> (\<exists>d e. fng_api w = Response d \<and> fear_greed_latest lib d = Inl e)
   \<Longrightarrow> get_fear_greed_index lib w = fear_greed_default"
  by (auto simp: get_fear_greed_index_def)

text \<open>
  C2 (as amended). When the sentiment sub-call fails (the request fails, or reading the
  payload raises), the sentiment index is value 50, classification \<open>Neutral\<close>, and
  a snapshot whose market aggregates were fetched is the report formatted from those
  aggregates and that default: it ends with \<open>Fear & Greed Index: 50/100 (Neutral)\<close>.
  When the market-aggregates request fails, the whole snapshot is the text
  \<open>Could not fetch global market data\<close>.
\<close>

theorem global_summary_defaults:
  "(fng_api w = RequestException \<or> (\<exists>d e. fng_api w = Response d \<and> fear_greed_latest lib d = Inl e)
      \<longrightarrow> get_fear_greed_index lib w = fear_greed_default
          \<and> (\<forall>gd. fst (get_global_market_data w s) = Inr gd \<and> truthy gd \<longrightarrow>
                fst (get_global_market_summary lib w s)
                  = global_summary_text lib gd fear_greed_default
                \<and> (\<forall>report. fst (get_global_market_summary lib w s) = Inr report \<longrightarrow>
                      (\<exists>pre. report = pre @ ''Fear & Greed Index: 50/100 (Neutral)''))))
   \<and> (cg_api w ''/global'' [] = RequestException \<longrightarrow>
         fst (get_global_market_summary lib w s) = Inr ''Could not fetch global market data'')"
proof (intro conjI impI allI)
  assume f: "fng_api w = RequestException
      \<or> (\<exists>d e. fng_api w = Response d \<and> fear_greed_latest lib d = Inl e)"
  then show d: "get_fear_greed_index lib w = fear_greed_default"
    by (rule get_fear_greed_index_failed)
  fix gd
  assume g: "fst (get_global_market_data w s) = Inr gd \<and> truthy gd"
  then show e: "fst (get_global_market_summary lib w s)
      = global_summary_text lib gd fear_greed_default"
    by (simp add: get_global_market_summary_fst bnd_def d)
  fix report
  assume "fst (get_global_market_summary lib w s) = Inr report"
  with e have "global_summary_text lib gd fear_greed_default = Inr report" by simp
  then show "\<exists>pre. report = pre @ ''Fear & Greed Index: 50/100 (Neutral)''"
    by (rule global_summary_suffix)
next
  assume "cg_api w ''/global'' [] = RequestException"
  then show "fst (get_global_market_summary lib w s) = Inr ''Could not fetch global market data''"
    by (simp add: get_global_market_summary_fst get_global_market_data_failed bnd_def)
qed

lemma market_only_data:
  "fst (get_global_market_data market_only_world (cg_init 100)) =
     Inr (JObj [(''active_cryptocurrencies'', JInt 17000), (''markets'', JInt 1200),
                (''total_market_cap_usd'', JInt 0), (''total_volume_usd'', JInt 0),
                (''market_cap_change_percentage_24h'', JInt 0),
                (''btc_dominance'', JInt 0), (''eth_dominance'', JInt 0)])"
  by (simp add: get_global_market_data_def Let_def case_prod_beta cg_make_request_data
      market_only_world_def bnd_def global_fields_def get2_def)

lemma market_only_text:
  "global_summary_text plain_lib
     (JObj [(''active_cryptocurrencies'', JInt 17000), (''markets'', JInt 1200),
                (''total_market_cap_usd'', JInt 0), (''total_volume_usd'', JInt 0),
                (''market_cap_change_percentage_24h'', JInt 0),
                (''btc_dominance'', JInt 0), (''eth_dominance'', JInt 0)]) fear_greed_default
   = Inr (''=== Global Crypto Market Overview ==='' @ NL @ NL @ ''Total Market Cap: $#'' @ NL
      @ ''24h Market Cap Change: #%'' @ NL @ ''Total 24h Volume: $#'' @ NL @ NL
      @ ''Market Dominance:'' @ NL @ ''  Bitcoin: #%'' @ NL @ ''  Ethereum: #%'' @ NL @ NL
      @ ''Active Cryptocurrencies: 17,000'' @ NL @ ''Active Markets: 1,200'' @ NL @ NL
      @ ''Fear & Greed Index: 50/100 (Neutral)'')"
  by (simp add: global_summary_text_def fstring_def bnd_def field_def py_format_def plain_lib_def
      fear_greed_default_def py_comma_int_def py_str_int_def digits_of.simps group3.simps
      py_strip_def is_space_def NL_def)

theorem global_summary_defaults_witness:
  "fng_api market_only_world = RequestException
   \<and> get_fear_greed_index plain_lib market_only_world = fear_greed_default
   \<and> fst (get_global_market_summary plain_lib market_only_world (cg_init 100))
       = Inr (''=== Global Crypto Market Overview ==='' @ NL @ NL @ ''Total Market Cap: $#'' @ NL
      @ ''24h Market Cap Change: #%'' @ NL @ ''Total 24h Volume: $#'' @ NL @ NL
      @ ''Market Dominance:'' @ NL @ ''  Bitcoin: #%'' @ NL @ ''  Ethereum: #%'' @ NL @ NL
      @ ''Active Cryptocurrencies: 17,000'' @ NL @ ''Active Markets: 1,200'' @ NL @ NL
      @ ''Fear & Greed Index: 50/100 (Neutral)'')
   \<and> cg_api sentiment_only_world ''/global'' [] = RequestException
   \<and> fst (get_global_market_summary plain_lib sentiment_only_world (cg_init 100))
       = Inr ''Could not fetch global market data''"
proof -
  have f: "fng_api market_only_world = RequestException" by (simp add: market_only_world_def)
  have g: "cg_api sentiment_only_world ''/global'' [] = RequestException"
    by (simp add: sentiment_only_world_def)
  note T = global_summary_defaults [where w = market_only_world and s = "cg_init 100" and lib = plain_lib]
  note U = global_summary_defaults [where w = sentiment_only_world and s = "cg_init 100" and lib = plain_lib]
  from T f have d: "get_fear_greed_index plain_lib market_only_world = fear_greed_default" by blast
  from T f market_only_data
  have "fst (get_global_market_summary plain_lib market_only_world (cg_init 100))
      = global_summary_text plain_lib (JObj [(''active_cryptocurrencies'', JInt 17000), (''markets'', JInt 1200),
                (''total_market_cap_usd'', JInt 0), (''total_volume_usd'', JInt 0),
                (''market_cap_change_percentage_24h'', JInt 0),
                (''btc_dominance'', JInt 0), (''eth_dominance'', JInt 0)]) fear_greed_default"
    by simp
  then have e: "fst (get_global_market_summary plain_lib market_only_world (cg_init 100))
       = Inr (''=== Global Crypto Market Overview ==='' @ NL @ NL @ ''Total Market Cap: $#'' @ NL
      @ ''24h Market Cap Change: #%'' @ NL @ ''Total 24h Volume: $#'' @ NL @ NL
      @ ''Market Dominance:'' @ NL @ ''  Bitcoin: #%'' @ NL @ ''  Ethereum: #%'' @ NL @ NL
      @ ''Active Cryptocurrencies: 17,000'' @ NL @ ''Active Markets: 1,200'' @ NL @ NL
      @ ''Fear & Greed Index: 50/100 (Neutral)'')"
    by (simp only: market_only_text)
  from U g have c: "fst (get_global_market_summary plain_lib sentiment_only_world (cg_init 100))
       = Inr ''Could not fetch global market data''" by blast
  from f d e g c show ?thesis by blast
qed

lemma sentiment_only_index:
  "get_fear_greed_index plain_lib sentiment_only_world =
     JObj [(''value'', JInt 25), (''value_classification'', JStr ''Extreme Fear''),
           (''timestamp'', JStr []), (''time_until_update'', JStr [])]"
  by (simp add: get_fear_greed_index_def sentiment_only_world_def fear_greed_latest_def bnd_def
      py_int_of_str_def ascii_int_of_str_def is_ascii_def less_char_def int_strip_def
      is_int_space_def within_digit_limit_def plain_lib_def digits_value_def is_digit_def
      less_eq_char_def)

text \<open>
  Without the amendment the statement fails: when the market-aggregates sub-call fails
  and the sentiment index answers (25, \<open>Extreme Fear\<close>), no field is given a default;
  the whole snapshot is the one-line failure text.
\<close>

theorem global_summary_counterexample:
  "cg_api sentiment_only_world ''/global'' [] = RequestException
   \<and> get_fear_greed_index plain_lib sentiment_only_world =
       JObj [(''value'', JInt 25), (''value_classification'', JStr ''Extreme Fear''),
             (''timestamp'', JStr []), (''time_until_update'', JStr [])]
   \<and> fst (get_global_market_summary plain_lib sentiment_only_world (cg_init 100))
       = Inr ''Could not fetch global market data''"
proof -
  have g: "cg_api sentiment_only_world ''/global'' [] = RequestException"
    by (simp add: sentiment_only_world_def)
  have "fst (get_global_market_summary plain_lib sentiment_only_world (cg_init 100))
       = Inr ''Could not fetch global market data''"
    by (simp add: get_global_market_summary_fst get_global_market_data_failed [OF g] bnd_def)
  with g sentiment_only_index show ?thesis by simp
qed

subsection \<open>On-chain summaries\<close>

lemma eth_gas_down: "get_ethereum_gas_stats lib down_world all_keys = Inr (JObj [])"
  by (simp add: get_ethereum_gas_stats_def all_keys_def key_set_def oc_make_request_def
      down_world_def etherscan_ok_def bnd_def)

lemma eth_supply_down: "get_ethereum_supply_stats lib down_world all_keys = Inr (JObj [])"
  by (simp add: get_ethereum_supply_stats_def all_keys_def key_set_def oc_make_request_def
      down_world_def etherscan_ok_def bnd_def)

lemma eth_summary_down: "get_ethereum_onchain_summary lib down_world all_keys = Inl KeyError"
  by (simp add: get_ethereum_onchain_summary_def eth_gas_down eth_supply_down bnd_def
      fstring_def field_def)

lemma btc_stats_only:
  "get_bitcoin_network_stats stats_only_world =
     Inr (JObj [(''market_price_usd'', JInt 60000), (''hash_rate'', JInt 0),
                (''difficulty'', JInt 0), (''total_btc_sent'', JFloat 0),
                (''n_transactions'', JInt 350000), (''n_blocks_total'', JInt 0),
                (''minutes_between_blocks'', JInt 0), (''totalbc'', JFloat 0),
                (''estimated_transaction_volume_usd'', JInt 0), (''blocks_size'', JInt 0),
                (''miners_revenue_usd'', JInt 0), (''timestamp'', JInt 0)])"
  by (simp add: get_bitcoin_network_stats_def oc_make_request_def stats_only_world_def
      bnd_def py_truediv_def Let_def)

lemma btc_mempool_down: "get_bitcoin_mempool_info lib stats_only_world = JObj []"
  by (simp add: get_bitcoin_mempool_info_def stats_only_world_def)

lemma btc_large_down: "get_bitcoin_large_transactions lib stats_only_world m = Inr []"
  by (simp add: get_bitcoin_large_transactions_def oc_make_request_def stats_only_world_def)

lemma btc_summary_stats_only: "get_bitcoin_onchain_summary lib stats_only_world = Inl ValueError"
  by (simp add: get_bitcoin_onchain_summary_def btc_stats_only btc_mempool_down btc_large_down
      bnd_def fstring_def field_def field_get_def py_format_def py_truediv_def Let_def)

text \<open>
  C1. The claim asks that no client operation raises when a fetch fails. Both on-chain
  summaries do. With a credential configured and the gas oracle failing, the gas
  statistics are the empty dict, which has no \<^verbatim>\<open>error\<close> key, and the summary raises
  \<^verbatim>\<open>KeyError\<close> at \<^verbatim>\<open>gas_stats['safe_gas_price']\<close>. With the network statistics fetched
  and the mempool count failing, the mempool information is the empty dict, and the
  summary raises \<^verbatim>\<open>ValueError\<close> when it formats the default \<^verbatim>\<open>'N/A'\<close> with \<^verbatim>\<open>:,\<close>.
\<close>

theorem onchain_summaries_raise:
  "get_ethereum_gas_stats lib down_world all_keys = Inr (JObj [])
   \<and> get_ethereum_onchain_summary lib down_world all_keys = Inl KeyError
   \<and> get_bitcoin_mempool_info lib stats_only_world = JObj []
   \<and> get_bitcoin_onchain_summary lib stats_only_world = Inl ValueError"
  by (simp add: eth_gas_down eth_summary_down btc_mempool_down btc_summary_stats_only)

lemma long_s_sol: "py_upper lib (long_s @ ''ol'') = ''SOL''"
  by (simp add: py_upper_def long_s_def seq_len_def is_cont_def upper_cp_def sharp_s_def
      capital_sharp_s_def less_char_def less_eq_char_def upper_char_def)

lemma doge_no_keys:
  "get_general_onchain_summary plain_lib down_world no_keys ''DOGE'' =
     Inr (''=== DOGE On-Chain & Social Metrics ==='' @ NL @ NL @ ''Social Activity:'' @ NL
          @ ''  Reddit Subscribers: 0'' @ NL @ ''  Reddit Active Users: 0'' @ NL
          @ ''  Twitter Followers: 0'')"
  by (simp add: get_general_onchain_summary_def case_examples get_on_chain_summary_def
      get_social_stats_def no_keys_def key_set_def Let_def fstring_def bnd_def field_get_def
      py_format_def py_comma_int_def digits_of.simps group3.simps py_strip_def is_space_def NL_def)

lemma doge_coin_zero:
  "get_general_onchain_summary plain_lib coin_zero_world all_keys ''DOGE'' =
     Inr (''=== DOGE On-Chain & Social Metrics ==='' @ NL @ NL @ ''Social Activity:'' @ NL
          @ ''  Reddit Subscribers: 1,234'' @ NL @ ''  Reddit Active Users: 0'' @ NL
          @ ''  Twitter Followers: 0'')"
  by (simp add: get_general_onchain_summary_def case_examples get_on_chain_summary_def
      get_social_stats_def all_keys_def key_set_def Let_def fstring_def bnd_def field_get_def
      get_cryptocompare_coin_id_def cryptocompare_mappings_def coin_zero_world_def
      social_fields_def get2_def
      py_format_def py_comma_int_def digits_of.simps group3.simps py_strip_def is_space_def NL_def)

lemma unmapped_not_btc_eth:
  "map_of cryptocompare_mappings (py_upper lib symbol) = None \<Longrightarrow>
   py_upper lib symbol \<noteq> ''BTC'' \<and> py_upper lib symbol \<noteq> ''ETH''"
  by (auto simp: cryptocompare_mappings_def)

lemma get_on_chain_summary_empty:
  assumes "key_set (cryptocompare_key keys)"
    and "oc_api w ''https://min-api.cryptocompare.com/data/blockchain/latest''
             [(''fsym'', JStr (py_upper lib symbol))] = RequestException
         \<or> (\<exists>kvs. oc_api w ''https://min-api.cryptocompare.com/data/blockchain/latest''
                    [(''fsym'', JStr (py_upper lib symbol))] = Response (JObj kvs)
                 \<and> map_of kvs ''Response'' \<noteq> Some (JStr ''Success''))"
  shows "get_on_chain_summary lib w keys symbol = JObj []"
  using assms
  by (auto simp: get_on_chain_summary_def on_chain_data_def bnd_def split: option.splits)

lemma get_social_stats_empty:
  assumes "key_set (cryptocompare_key keys)"
    and "map_of cryptocompare_mappings (py_upper lib symbol) = None"
    and "oc_api w ''https://min-api.cryptocompare.com/data/social/coin/latest''
             [(''coinId'', JInt 0)] = RequestException
         \<or> (\<exists>kvs. oc_api w ''https://min-api.cryptocompare.com/data/social/coin/latest''
                    [(''coinId'', JInt 0)] = Response (JObj kvs)
                 \<and> map_of kvs ''Response'' \<noteq> Some (JStr ''Success''))"
  shows "get_social_stats lib w keys symbol = JObj []"
  using assms
  by (auto simp: get_social_stats_def get_cryptocompare_coin_id_def social_fields_def bnd_def
      split: option.splits)

text \<open>
  C4 (as amended). For every symbol whose uppercase form is absent from the static
  multi-chain ID table the ID lookup gives the placeholder 0, which is the ID of no
  asset of the table. With a credential configured, when the on-chain request for
  such a symbol and the social request for coin ID 0 both fail or are answered without
  \<^verbatim>\<open>Success\<close>, the generic on-chain fetch returns the text
  \<open>Limited on-chain data available for\<close> followed by the symbol.
\<close>

theorem unmapped_symbol:
  "0 \<notin> snd ` set cryptocompare_mappings
   \<and> (map_of cryptocompare_mappings (py_upper lib symbol) = None
      \<longrightarrow> get_cryptocompare_coin_id lib symbol = 0)
   \<and> (map_of cryptocompare_mappings (py_upper lib symbol) = None
      \<and> key_set (cryptocompare_key keys)
      \<and> (oc_api w ''https://min-api.cryptocompare.com/data/blockchain/latest''
             [(''fsym'', JStr (py_upper lib symbol))] = RequestException
         \<or> (\<exists>kvs. oc_api w ''https://min-api.cryptocompare.com/data/blockchain/latest''
                    [(''fsym'', JStr (py_upper lib symbol))] = Response (JObj kvs)
                 \<and> map_of kvs ''Response'' \<noteq> Some (JStr ''Success'')))
      \<and> (oc_api w ''https://min-api.cryptocompare.com/data/social/coin/latest''
             [(''coinId'', JInt 0)] = RequestException
         \<or> (\<exists>kvs. oc_api w ''https://min-api.cryptocompare.com/data/social/coin/latest''
                    [(''coinId'', JInt 0)] = Response (JObj kvs)
                 \<and> map_of kvs ''Response'' \<noteq> Some (JStr ''Success'')))
      \<longrightarrow> get_general_onchain_summary lib w keys symbol
            = Inr (''Limited on-chain data available for '' @ symbol))"
proof (intro conjI impI)
  show "0 \<notin> snd ` set cryptocompare_mappings"
    by (simp add: cryptocompare_mappings_def)
next
  assume "map_of cryptocompare_mappings (py_upper lib symbol) = None"
  then show "get_cryptocompare_coin_id lib symbol = 0"
    by (simp add: get_cryptocompare_coin_id_def)
next
  assume a: "map_of cryptocompare_mappings (py_upper lib symbol) = None
      \<and> key_set (cryptocompare_key keys)
      \<and> (oc_api w ''https://min-api.cryptocompare.com/data/blockchain/latest''
             [(''fsym'', JStr (py_upper lib symbol))] = RequestException
         \<or> (\<exists>kvs. oc_api w ''https://min-api.cryptocompare.com/data/blockchain/latest''
                    [(''fsym'', JStr (py_upper lib symbol))] = Response (JObj kvs)
                 \<and> map_of kvs ''Response'' \<noteq> Some (JStr ''Success'')))
      \<and> (oc_api w ''https://min-api.cryptocompare.com/data/social/coin/latest''
             [(''coinId'', JInt 0)] = RequestException
         \<or> (\<exists>kvs. oc_api w ''https://min-api.cryptocompare.com/data/social/coin/latest''
                    [(''coinId'', JInt 0)] = Response (JObj kvs)
                 \<and> map_of kvs ''Response'' \<noteq> Some (JStr ''Success'')))"
  then have u: "map_of cryptocompare_mappings (py_upper lib symbol) = None"
    and k: "key_set (cryptocompare_key keys)" by simp_all
  from a have "get_on_chain_summary lib w keys symbol = JObj []"
    by (intro get_on_chain_summary_empty) simp_all
  moreover from a have "get_social_stats lib w keys symbol = JObj []"
    by (intro get_social_stats_empty) simp_all
  ultimately show "get_general_onchain_summary lib w keys symbol
            = Inr (''Limited on-chain data available for '' @ symbol)"
    using unmapped_not_btc_eth [OF u]
    by (simp add: get_general_onchain_summary_def Let_def)
qed

theorem unmapped_symbol_witness:
  "map_of cryptocompare_mappings (py_upper plain_lib ''pepe'') = None
   \<and> get_cryptocompare_coin_id plain_lib ''pepe'' = 0
   \<and> key_set (cryptocompare_key all_keys)
   \<and> oc_api down_world ''https://min-api.cryptocompare.com/data/blockchain/latest''
         [(''fsym'', JStr ''PEPE'')] = RequestException
   \<and> oc_api down_world ''https://min-api.cryptocompare.com/data/social/coin/latest''
         [(''coinId'', JInt 0)] = RequestException
   \<and> get_general_onchain_summary plain_lib down_world all_keys ''pepe''
        = Inr ''Limited on-chain data available for pepe''"
  using unmapped_symbol [of plain_lib "''pepe''" all_keys down_world]
  by (simp add: case_examples cryptocompare_mappings_def all_keys_def key_set_def down_world_def)
text \<open>
  Without the amendment the statement fails for \<open>DOGE\<close>. The symbol is not in the table and the lookup gives
  the number 0. With a credential the social request is sent for coin 0, and what the
  provider answers for that coin is reported as the symbol's. Without a credential the
  report lists metrics, all zero, that no provider returned. Neither report says that
  the symbol has no mapping.
\<close>

theorem unmapped_symbol_counterexample:
  "map_of cryptocompare_mappings (py_upper plain_lib ''DOGE'') = None
   \<and> get_cryptocompare_coin_id plain_lib ''DOGE'' = 0
   \<and> get_general_onchain_summary plain_lib coin_zero_world all_keys ''DOGE'' =
     Inr (''=== DOGE On-Chain & Social Metrics ==='' @ NL @ NL @ ''Social Activity:'' @ NL
          @ ''  Reddit Subscribers: 1,234'' @ NL @ ''  Reddit Active Users: 0'' @ NL
          @ ''  Twitter Followers: 0'')
   \<and> get_general_onchain_summary plain_lib down_world no_keys ''DOGE'' =
     Inr (''=== DOGE On-Chain & Social Metrics ==='' @ NL @ NL @ ''Social Activity:'' @ NL
          @ ''  Reddit Subscribers: 0'' @ NL @ ''  Reddit Active Users: 0'' @ NL
          @ ''  Twitter Followers: 0'')"
  by (simp add: doge_no_keys doge_coin_zero)
    (simp add: get_cryptocompare_coin_id_def case_examples cryptocompare_mappings_def)

end
